theory Spec2Isabelle
  imports Complex_Main "HOL-Library.AList"
begin

section \<open>Python values\<close>

text \<open>
  Request envelopes, response envelopes and decoded completions are JSON-shaped Python
  values. A \<open>dict\<close> is an association list in insertion order (its keys are strings, as
  in every dict of this program); lookup takes the first binding of a key. A finite
  \<open>float\<close> is represented by its value as a rational; rounding is not modelled.
  Strings are sequences of ASCII characters.
\<close>

datatype pyval =
    PNone
  | PBool bool
  | PInt int
  | PFloat rat
  | PStr string
  | PList "pyval list"
  | PDict "(string \<times> pyval) list"

type_synonym pydict = "(string \<times> pyval) list"

text \<open>Exceptions carry the text that \<open>str(e)\<close> yields, except \<open>KeyError\<close>, which carries the key.\<close>

datatype exn =
    TypeError string
  | AttributeError string
  | KeyError string
  | JSONDecodeError string
  | ZeroDivisionError string
  | OtherError string

fun exn_str :: "exn \<Rightarrow> string" where
  "exn_str (TypeError m) = m"
| "exn_str (AttributeError m) = m"
| "exn_str (KeyError k) = [CHR 0x27] @ k @ [CHR 0x27]"
| "exn_str (JSONDecodeError m) = m"
| "exn_str (ZeroDivisionError m) = m"
| "exn_str (OtherError m) = m"

text \<open>\<open>bool(v)\<close>: \<open>None\<close>, \<open>False\<close>, zero and every empty container are falsy.\<close>

fun truthy :: "pyval \<Rightarrow> bool" where
  "truthy PNone = False"
| "truthy (PBool b) = b"
| "truthy (PInt i) = (i \<noteq> 0)"
| "truthy (PFloat r) = (r \<noteq> 0)"
| "truthy (PStr s) = (s \<noteq> [])"
| "truthy (PList xs) = (xs \<noteq> [])"
| "truthy (PDict d) = (d \<noteq> [])"

fun type_name :: "pyval \<Rightarrow> string" where
  "type_name PNone = ''NoneType''"
| "type_name (PBool b) = ''bool''"
| "type_name (PInt i) = ''int''"
| "type_name (PFloat r) = ''float''"
| "type_name (PStr s) = ''str''"
| "type_name (PList xs) = ''list''"
| "type_name (PDict d) = ''dict''"

definition quoted :: "string \<Rightarrow> string" where
  "quoted s = [CHR 0x27] @ s @ [CHR 0x27]"

text \<open>\<open>d.get(k)\<close> on a dict known to be one, and \<open>d.get(k, default)\<close>.\<close>

definition dict_get :: "pydict \<Rightarrow> string \<Rightarrow> pyval" where
  "dict_get d k = (case map_of d k of None \<Rightarrow> PNone | Some v \<Rightarrow> v)"

definition dict_get_default :: "pydict \<Rightarrow> string \<Rightarrow> pyval \<Rightarrow> pyval" where
  "dict_get_default d k dflt = (case map_of d k of None \<Rightarrow> dflt | Some v \<Rightarrow> v)"

text \<open>\<open>v[k]\<close> for a string key \<open>k\<close>.\<close>

fun subscript :: "pyval \<Rightarrow> string \<Rightarrow> exn + pyval" where
  "subscript (PDict d) k = (case map_of d k of None \<Rightarrow> Inl (KeyError k) | Some v \<Rightarrow> Inr v)"
| "subscript (PList xs) k = Inl (TypeError ''list indices must be integers or slices, not str'')"
| "subscript (PStr s) k = Inl (TypeError ''string indices must be integers'')"
| "subscript v k = Inl (TypeError (quoted (type_name v) @ '' object is not subscriptable''))"

text \<open>\<open>v.get(k, default)\<close> on an arbitrary value: only a dict has the method.\<close>

fun method_get :: "pyval \<Rightarrow> string \<Rightarrow> pyval \<Rightarrow> exn + pyval" where
  "method_get (PDict d) k dflt = Inr (dict_get_default d k dflt)"
| "method_get v k dflt =
     Inl (AttributeError (quoted (type_name v) @ '' object has no attribute '' @ quoted ''get''))"

text \<open>
  \<open>a + b\<close> as \<open>sum\<close> uses it and \<open>a / n\<close> for a positive count \<open>n\<close>, on numbers
  (\<open>bool\<close> counts as \<open>int\<close>); the quotient is a \<open>float\<close>.
\<close>

fun as_number :: "pyval \<Rightarrow> (int + rat) option" where
  "as_number (PInt i) = Some (Inl i)"
| "as_number (PBool b) = Some (Inl (if b then 1 else 0))"
| "as_number (PFloat r) = Some (Inr r)"
| "as_number v = None"

definition py_add :: "pyval \<Rightarrow> pyval \<Rightarrow> exn + pyval" where
  "py_add a b =
     (case (as_number a, as_number b) of
        (Some (Inl i), Some (Inl j)) \<Rightarrow> Inr (PInt (i + j))
      | (Some (Inl i), Some (Inr r)) \<Rightarrow> Inr (PFloat (of_int i + r))
      | (Some (Inr r), Some (Inl j)) \<Rightarrow> Inr (PFloat (r + of_int j))
      | (Some (Inr r), Some (Inr q)) \<Rightarrow> Inr (PFloat (r + q))
      | _ \<Rightarrow> Inl (TypeError (''unsupported operand type(s) for +: '' @ quoted (type_name a)
                 @ '' and '' @ quoted (type_name b))))"

definition true_divide :: "pyval \<Rightarrow> int \<Rightarrow> exn + pyval" where
  "true_divide a n =
     (case as_number a of
        None \<Rightarrow> Inl (TypeError (''unsupported operand type(s) for /: '' @ quoted (type_name a)
                   @ '' and '' @ quoted ''int''))
      | Some x \<Rightarrow>
          if n = 0 then Inl (ZeroDivisionError ''division by zero'')
          else (case x of Inl i \<Rightarrow> Inr (PFloat (of_int i / of_int n))
                        | Inr r \<Rightarrow> Inr (PFloat (r / of_int n))))"

text \<open>\<open>len(v)\<close>.\<close>

fun py_len :: "pyval \<Rightarrow> exn + int" where
  "py_len (PStr s) = Inr (int (length s))"
| "py_len (PList xs) = Inr (int (length xs))"
| "py_len (PDict d) = Inr (int (length d))"
| "py_len v = Inl (TypeError (''object of type '' @ quoted (type_name v) @ '' has no len()''))"

text \<open>The elements a \<open>for\<close> loop visits: a dict yields its keys, a string its characters.\<close>

fun py_iter :: "pyval \<Rightarrow> exn + pyval list" where
  "py_iter (PList xs) = Inr xs"
| "py_iter (PDict d) = Inr (map (\<lambda>kv. PStr (fst kv)) d)"
| "py_iter (PStr s) = Inr (map (\<lambda>c. PStr [c]) s)"
| "py_iter v = Inl (TypeError (quoted (type_name v) @ '' object is not iterable''))"

text \<open>\<open>v[k] = x\<close> for a string key: a dict keeps the position of a key it already has.\<close>

fun set_item :: "pyval \<Rightarrow> string \<Rightarrow> pyval \<Rightarrow> exn + pyval" where
  "set_item (PDict d) k x = Inr (PDict (AList.update k x d))"
| "set_item (PList xs) k x = Inl (TypeError ''list indices must be integers or slices, not str'')"
| "set_item v k x =
     Inl (TypeError (quoted (type_name v) @ '' object does not support item assignment''))"

section \<open>String methods\<close>

definition is_upper :: "char \<Rightarrow> bool" where
  "is_upper c = (let n = (of_char c :: nat) in 65 \<le> n \<and> n \<le> 90)"

definition is_lower :: "char \<Rightarrow> bool" where
  "is_lower c = (let n = (of_char c :: nat) in 97 \<le> n \<and> n \<le> 122)"

definition lower_char :: "char \<Rightarrow> char" where
  "lower_char c = (if is_upper c then char_of (of_char c + (32::nat)) else c)"

definition upper_char :: "char \<Rightarrow> char" where
  "upper_char c = (if is_lower c then char_of (of_char c - (32::nat)) else c)"

definition str_lower :: "string \<Rightarrow> string" where
  "str_lower s = map lower_char s"

text \<open>\<open>s.title()\<close>: a letter is upper-cased after a non-letter and lower-cased after a letter.\<close>

fun title_from :: "bool \<Rightarrow> string \<Rightarrow> string" where
  "title_from prev [] = []"
| "title_from prev (c # cs) =
     (if is_upper c \<or> is_lower c
      then (if prev then lower_char c else upper_char c) # title_from True cs
      else c # title_from False cs)"

definition str_title :: "string \<Rightarrow> string" where
  "str_title s = title_from False s"

text \<open>\<open>s.replace(' ', '')\<close>.\<close>

definition remove_spaces :: "string \<Rightarrow> string" where
  "remove_spaces s = filter (\<lambda>c. c \<noteq> CHR '' '') s"

text \<open>\<open>str.isspace\<close> on ASCII: tab to carriage return, the four separators 28 to 31, space.\<close>

definition is_space :: "char \<Rightarrow> bool" where
  "is_space c = (let n = (of_char c :: nat) in (9 \<le> n \<and> n \<le> 13) \<or> (28 \<le> n \<and> n \<le> 32))"

definition str_strip :: "string \<Rightarrow> string" where
  "str_strip s = rev (dropWhile is_space (rev (dropWhile is_space s)))"

fun starts_with :: "string \<Rightarrow> string \<Rightarrow> bool" where
  "starts_with s [] = True"
| "starts_with [] (p # ps) = False"
| "starts_with (c # cs) (p # ps) = (c = p \<and> starts_with cs ps)"

text \<open>\<open>sub in s\<close> for strings.\<close>

fun str_contains :: "string \<Rightarrow> string \<Rightarrow> bool" where
  "str_contains [] sub = (sub = [])"
| "str_contains (c # cs) sub = (starts_with (c # cs) sub \<or> str_contains cs sub)"

section \<open>The environment and the world\<close>

text \<open>
  A prompt is the template that renders it together with the strings interpolated into
  it, in the order of their first occurrence; the rendered text is a function of the two.
\<close>

datatype template =
    MarketAnalysisPrompt
  | ContactDiscoveryPrompt
  | TrendAnalysisPrompt
  | OpportunityPrompt
  | TranslationPrompt
  | CulturalContextPrompt
  | EtiquettePrompt
  | DetectionPrompt
  | UserAnalyticsPrompt
  | ProductInsightsPrompt
  | RecommendationsPrompt
  | CompetitionPrompt
  | GrowthPrompt

type_synonym messages = "template \<times> string list"

text \<open>
  What the program does not define is a parameter: the completion endpoint (given the
  calls made so far and the messages, it raises or returns the completion text),
  \<open>json.loads\<close>, \<open>repr\<close> of numbers and containers, and the clock (the text of the
  \<open>n\<close>-th reading of \<open>datetime.utcnow().isoformat()\<close>).
\<close>

record env =
  chat_create :: "messages list \<Rightarrow> messages \<Rightarrow> exn + string"
  json_loads :: "string \<Rightarrow> exn + pyval"
  py_repr :: "pyval \<Rightarrow> string"
  utcnow :: "nat \<Rightarrow> string"

record world =
  api_calls :: "messages list"
  clock_reads :: nat

text \<open>Decimal numerals, for \<open>str\<close> of an \<open>int\<close>.\<close>

fun digits :: "nat \<Rightarrow> string" where
  "digits n =
     (if n < 10 then [char_of (48 + n)] else digits (n div 10) @ [char_of (48 + n mod 10)])"

definition int_str :: "int \<Rightarrow> string" where
  "int_str i = (if i < 0 then CHR ''-'' # digits (nat (- i)) else digits (nat i))"

text \<open>\<open>str(v)\<close>, as an f-string applies it.\<close>

fun py_str :: "env \<Rightarrow> pyval \<Rightarrow> string" where
  "py_str E (PStr s) = s"
| "py_str E PNone = ''None''"
| "py_str E (PBool b) = (if b then ''True'' else ''False'')"
| "py_str E (PInt i) = int_str i"
| "py_str E v = py_repr E v"

text \<open>\<open>', '.join(v)\<close>: every item must be a string.\<close>

fun join_items :: "pyval list \<Rightarrow> nat \<Rightarrow> exn + string" where
  "join_items [] n = Inr []"
| "join_items (x # xs) n =
     (case x of
        PStr s \<Rightarrow>
          (case join_items xs (Suc n) of
             Inl e \<Rightarrow> Inl e
           | Inr r \<Rightarrow> Inr (if xs = [] then s else s @ '', '' @ r))
      | _ \<Rightarrow> Inl (TypeError (''sequence item '' @ digits n @ '': expected str instance, ''
                 @ type_name x @ '' found'')))"

definition comma_join :: "pyval \<Rightarrow> exn + string" where
  "comma_join v =
     (case py_iter v of
        Inl e \<Rightarrow> Inl (TypeError ''can only join an iterable'')
      | Inr xs \<Rightarrow> join_items xs 0)"

text \<open>\<open>v.lower()\<close> and \<open>v.title()\<close> on an arbitrary value: only a string has the methods.\<close>

definition no_attribute :: "pyval \<Rightarrow> string \<Rightarrow> exn" where
  "no_attribute v a =
     AttributeError (quoted (type_name v) @ '' object has no attribute '' @ quoted a)"

definition method_lower :: "pyval \<Rightarrow> exn + string" where
  "method_lower v = (case v of PStr s \<Rightarrow> Inr (str_lower s) | _ \<Rightarrow> Inl (no_attribute v ''lower''))"

definition method_title :: "pyval \<Rightarrow> exn + string" where
  "method_title v = (case v of PStr s \<Rightarrow> Inr (str_title s) | _ \<Rightarrow> Inl (no_attribute v ''title''))"

definition read_clock :: "env \<Rightarrow> world \<Rightarrow> string \<times> world" where
  "read_clock E w = (utcnow E (clock_reads w), w\<lparr>clock_reads := Suc (clock_reads w)\<rparr>)"

section \<open>BaseAgent\<close>

datatype agent_class = MarketResearchAgent | TranslationAgent | BusinessIntelligenceAgent

record agent =
  name :: string
  agent_kind :: agent_class
  capabilities :: "string list"
  created_at :: string
  request_count :: int

definition BaseAgent_init :: "env \<Rightarrow> agent_class \<Rightarrow> string \<Rightarrow> string list \<Rightarrow> world \<Rightarrow> agent \<times> world" where
  "BaseAgent_init E cls nm caps w =
     (let (t, w1) = read_clock E w
      in (\<lparr>name = nm, agent_kind = cls, capabilities = caps, created_at = t, request_count = 0\<rparr>, w1))"

text \<open>\<open>log_request\<close>: the counter is incremented; the two printed lines are not modelled.\<close>

definition log_request :: "agent \<Rightarrow> agent" where
  "log_request self = self\<lparr>request_count := request_count self + 1\<rparr>"

definition call_openai_gpt :: "env \<Rightarrow> messages \<Rightarrow> world \<Rightarrow> string \<times> world" where
  "call_openai_gpt E msgs w =
     (case chat_create E (api_calls w) msgs of
        Inr content \<Rightarrow> content
      | Inl e \<Rightarrow> ''Error: Unable to process request - '' @ exn_str e,
      w\<lparr>api_calls := api_calls w @ [msgs]\<rparr>)"

fun validate_request :: "pydict \<Rightarrow> string list \<Rightarrow> bool" where
  "validate_request request_data [] = True"
| "validate_request request_data (field # required_fields) =
     (case map_of request_data field of
        None \<Rightarrow> False
      | Some v \<Rightarrow> if \<not> truthy v then False else validate_request request_data required_fields)"

definition format_error_response :: "env \<Rightarrow> agent \<Rightarrow> string \<Rightarrow> world \<Rightarrow> pyval \<times> world" where
  "format_error_response E self error_message w =
     (let (t, w1) = read_clock E w
      in (PDict [(''success'', PBool False),
                 (''error'', PStr error_message),
                 (''agent'', PStr (name self)),
                 (''timestamp'', PStr t)], w1))"

definition format_success_response :: "env \<Rightarrow> agent \<Rightarrow> pyval \<Rightarrow> world \<Rightarrow> pyval \<times> world" where
  "format_success_response E self data w =
     (let (t, w1) = read_clock E w
      in (PDict [(''success'', PBool True),
                 (''data'', data),
                 (''agent'', PStr (name self)),
                 (''timestamp'', PStr t)], w1))"

text \<open>Reading an envelope: the value bound to a key, if the envelope is a dict that has it.\<close>

fun field :: "pyval \<Rightarrow> string \<Rightarrow> pyval option" where
  "field (PDict d) k = map_of d k"
| "field v k = None"

text \<open>A handler's \<open>return\<close> of a formatted envelope.\<close>

definition returns :: "pyval \<times> world \<Rightarrow> (exn + pyval) \<times> world" where
  "returns p = (Inr (fst p), snd p)"

text \<open>
  The parse step every JSON-reading handler repeats:
  \<open>try: x = json.loads(ai_response)\<close>, \<open>except json.JSONDecodeError: x = fallback\<close>.
  Any other exception of the decoder is left to the enclosing \<open>except Exception\<close>.
\<close>

definition loads_or_fallback :: "env \<Rightarrow> string \<Rightarrow> pyval \<Rightarrow> exn + pyval" where
  "loads_or_fallback E ai_response fallback =
     (case json_loads E ai_response of
        Inr v \<Rightarrow> Inr v
      | Inl e \<Rightarrow> (case e of JSONDecodeError m \<Rightarrow> Inr fallback | _ \<Rightarrow> Inl e))"

section \<open>TranslationAgent\<close>

definition supported_languages :: "(string \<times> string) list" where
  "supported_languages =
     [(''en'', ''English''), (''es'', ''Spanish''), (''fr'', ''French''), (''de'', ''German''),
      (''it'', ''Italian''), (''pt'', ''Portuguese''), (''ru'', ''Russian''), (''zh'', ''Chinese''),
      (''ja'', ''Japanese''), (''ko'', ''Korean''), (''ar'', ''Arabic''), (''hi'', ''Hindi''),
      (''id'', ''Indonesian''), (''th'', ''Thai''), (''vi'', ''Vietnamese''), (''tr'', ''Turkish''),
      (''pl'', ''Polish''), (''nl'', ''Dutch''), (''sv'', ''Swedish''), (''da'', ''Danish'')]"

definition TranslationAgent_init :: "env \<Rightarrow> world \<Rightarrow> agent \<times> world" where
  "TranslationAgent_init E w =
     BaseAgent_init E TranslationAgent ''TranslationAgent''
       [''text_translation'', ''voice_translation'', ''cultural_context'', ''business_etiquette''] w"

text \<open>
  \<open>v in self.supported_languages\<close>, with the name \<open>self.supported_languages[v]\<close> when it
  is: hashing a list or a dict raises, and no other non-string equals a key.
\<close>

fun lookup_language :: "pyval \<Rightarrow> exn + string option" where
  "lookup_language (PStr s) = Inr (map_of supported_languages s)"
| "lookup_language (PList xs) = Inl (TypeError (''unhashable type: '' @ quoted ''list''))"
| "lookup_language (PDict d) = Inl (TypeError (''unhashable type: '' @ quoted ''dict''))"
| "lookup_language v = Inr None"

text \<open>
  \<open>_detect_language_internal\<close>. Nothing in its \<open>try\<close> block raises (\<open>call_openai_gpt\<close>
  catches the endpoint's exceptions), so the \<open>except\<close> branch has no case here.
\<close>

definition detect_language_internal :: "env \<Rightarrow> pyval \<Rightarrow> world \<Rightarrow> string \<times> world" where
  "detect_language_internal E text w =
     (let (detected, w1) = call_openai_gpt E (DetectionPrompt, [py_str E text]) w;
          detected_code = str_lower (str_strip detected)
      in (if map_of supported_languages detected_code \<noteq> None then detected_code else ''en'', w1))"

text \<open>
  \<open>_translate_text\<close>. The membership test on the target language stands before the
  \<open>try\<close> block, so its \<open>TypeError\<close> leaves the handler; nothing inside the block raises.
\<close>

definition translate_text :: "env \<Rightarrow> agent \<Rightarrow> pydict \<Rightarrow> world \<Rightarrow> (exn + pyval) \<times> world" where
  "translate_text E self request_data w =
     (if \<not> validate_request request_data [''text'', ''target_language'']
      then returns (format_error_response E self ''Missing required fields for text translation'' w)
      else
        let text = dict_get request_data ''text'';
            target_language = dict_get request_data ''target_language'';
            source_language = dict_get_default request_data ''source_language'' (PStr ''auto'');
            context = dict_get_default request_data ''context'' (PStr ''general'')
        in (case lookup_language target_language of
              Inl e \<Rightarrow> (Inl e, w)
            | Inr None \<Rightarrow>
                returns (format_error_response E self
                  (''Unsupported target language: '' @ py_str E target_language) w)
            | Inr (Some language_name) \<Rightarrow>
                let messages = (TranslationPrompt,
                      [language_name,
                       py_str E context,
                       (if source_language \<noteq> PStr ''auto'' then py_str E source_language
                        else ''auto-detect''),
                       py_str E text]);
                    (translated_text, w1) = call_openai_gpt E messages w;
                    (detected_language, w2) =
                      (if source_language = PStr ''auto''
                       then (let (d, w') = detect_language_internal E text w1 in (PStr d, w'))
                       else (source_language, w1))
                in returns (format_success_response E self
                     (PDict [(''original_text'', text),
                             (''translated_text'', PStr translated_text),
                             (''source_language'', detected_language),
                             (''target_language'', target_language),
                             (''context'', context),
                             (''confidence'', PFloat (95 / 100))]) w2)))"

text \<open>One element's entry in \<open>_batch_translate\<close>: the body of the \<open>try\<close> block of the loop.\<close>

definition batch_entry :: "int \<Rightarrow> pyval \<Rightarrow> exn + pyval \<Rightarrow> exn + pyval" where
  "batch_entry i text result =
     (case result of
        Inl e \<Rightarrow> Inl e
      | Inr r \<Rightarrow>
          (case subscript r ''success'' of
             Inl e \<Rightarrow> Inl e
           | Inr ok \<Rightarrow>
               if truthy ok
               then (case subscript r ''data'' of
                       Inl e \<Rightarrow> Inl e
                     | Inr d \<Rightarrow>
                         (case subscript d ''translated_text'' of
                            Inl e \<Rightarrow> Inl e
                          | Inr t \<Rightarrow>
                              Inr (PDict [(''index'', PInt i), (''original'', text),
                                          (''translated'', t), (''success'', PBool True)])))
               else (case subscript r ''error'' of
                       Inl e \<Rightarrow> Inl e
                     | Inr err \<Rightarrow>
                         Inr (PDict [(''index'', PInt i), (''original'', text),
                                     (''translated'', text), (''success'', PBool False),
                                     (''error'', err)]))))"

text \<open>The loop of \<open>_batch_translate\<close> over \<open>enumerate(texts)\<close>, from index \<open>i\<close>.\<close>

fun batch_loop ::
  "env \<Rightarrow> agent \<Rightarrow> pydict \<Rightarrow> pyval \<Rightarrow> pyval \<Rightarrow> pyval list \<Rightarrow> int \<Rightarrow> pyval list \<Rightarrow> world
   \<Rightarrow> pyval list \<times> world" where
  "batch_loop E self request_data target_language source_language [] i translations w =
     (translations, w)"
| "batch_loop E self request_data target_language source_language (text # rest) i translations w =
     (let translation_request =
            [(''text'', text),
             (''target_language'', target_language),
             (''source_language'', source_language),
             (''context'', dict_get_default request_data ''context'' (PStr ''general''))];
          (result, w1) = translate_text E self translation_request w;
          entry = (case batch_entry i text result of
                     Inr e \<Rightarrow> e
                   | Inl ex \<Rightarrow>
                       PDict [(''index'', PInt i), (''original'', text), (''translated'', text),
                              (''success'', PBool False), (''error'', PStr (exn_str ex))])
      in batch_loop E self request_data target_language source_language rest (i + 1)
           (translations @ [entry]) w1)"

definition entry_success :: "pyval \<Rightarrow> bool" where
  "entry_success t = (case field t ''success'' of Some v \<Rightarrow> truthy v | None \<Rightarrow> False)"

definition batch_translate :: "env \<Rightarrow> agent \<Rightarrow> pydict \<Rightarrow> world \<Rightarrow> (exn + pyval) \<times> world" where
  "batch_translate E self request_data w =
     (if \<not> validate_request request_data [''texts'', ''target_language'']
      then returns (format_error_response E self ''Missing required fields for batch translation'' w)
      else
        let texts = dict_get request_data ''texts'';
            target_language = dict_get request_data ''target_language'';
            source_language = dict_get_default request_data ''source_language'' (PStr ''auto'')
        in (case texts of
              PList ts \<Rightarrow>
                let (translations, w1) =
                      batch_loop E self request_data target_language source_language ts 0 [] w;
                    successful_translations = int (length (filter entry_success translations))
                in returns (format_success_response E self
                     (PDict [(''translations'', PList translations),
                             (''total_texts'', PInt (int (length ts))),
                             (''successful_translations'', PInt successful_translations),
                             (''target_language'', target_language)]) w1)
            | _ \<Rightarrow> returns (format_error_response E self ''Texts must be a list'' w)))"

definition provide_cultural_context :: "env \<Rightarrow> agent \<Rightarrow> pydict \<Rightarrow> world \<Rightarrow> (exn + pyval) \<times> world" where
  "provide_cultural_context E self request_data w =
     (if \<not> validate_request request_data [''country'']
      then returns (format_error_response E self ''Missing required fields for cultural context'' w)
      else
        let country = dict_get request_data ''country'';
            business_context = dict_get_default request_data ''business_context'' (PStr ''general'');
            communication_type = dict_get_default request_data ''communication_type'' (PStr ''email'');
            messages = (CulturalContextPrompt,
              [py_str E country, py_str E business_context, py_str E communication_type]);
            (ai_response, w1) = call_openai_gpt E messages w
        in (case loads_or_fallback E ai_response
                  (PDict [(''cultural_advice'', PStr ai_response),
                          (''country'', country),
                          (''tips'', PList [PStr ''Research local customs'',
                                            PStr ''Be respectful of cultural differences''])]) of
              Inr cultural_data \<Rightarrow>
                returns (format_success_response E self
                  (PDict [(''cultural_context'', cultural_data),
                          (''country'', country),
                          (''business_context'', business_context),
                          (''communication_type'', communication_type)]) w1)
            | Inl e \<Rightarrow>
                returns (format_error_response E self
                  (''Cultural context analysis failed: '' @ exn_str e) w1)))"

definition provide_business_etiquette :: "env \<Rightarrow> agent \<Rightarrow> pydict \<Rightarrow> world \<Rightarrow> (exn + pyval) \<times> world" where
  "provide_business_etiquette E self request_data w =
     (if \<not> validate_request request_data [''country'', ''situation'']
      then returns (format_error_response E self ''Missing required fields for business etiquette'' w)
      else
        let country = dict_get request_data ''country'';
            situation = dict_get request_data ''situation'';
            messages = (EtiquettePrompt, [py_str E situation, py_str E country]);
            (ai_response, w1) = call_openai_gpt E messages w
        in (case loads_or_fallback E ai_response
                  (PDict [(''etiquette_advice'', PStr ai_response),
                          (''general_tips'', PList [PStr ''Be respectful'',
                                                    PStr ''Research local customs'',
                                                    PStr ''Be punctual''])]) of
              Inr etiquette_data \<Rightarrow>
                returns (format_success_response E self
                  (PDict [(''business_etiquette'', etiquette_data),
                          (''country'', country),
                          (''situation'', situation)]) w1)
            | Inl e \<Rightarrow>
                returns (format_error_response E self
                  (''Business etiquette analysis failed: '' @ exn_str e) w1)))"

definition detect_language :: "env \<Rightarrow> agent \<Rightarrow> pydict \<Rightarrow> world \<Rightarrow> (exn + pyval) \<times> world" where
  "detect_language E self request_data w =
     (if \<not> validate_request request_data [''text'']
      then returns (format_error_response E self ''Missing required fields for language detection'' w)
      else
        let text = dict_get request_data ''text'';
            (detected_language, w1) = detect_language_internal E text w
        in returns (format_success_response E self
             (PDict [(''text'', text),
                     (''detected_language'', PStr detected_language),
                     (''language_name'',
                        (case map_of supported_languages detected_language of
                           Some n \<Rightarrow> PStr n | None \<Rightarrow> PStr ''Unknown'')),
                     (''confidence'', PFloat (9 / 10))]) w1))"

definition TranslationAgent_process_request ::
  "env \<Rightarrow> agent \<Rightarrow> pydict \<Rightarrow> world \<Rightarrow> (exn + pyval) \<times> agent \<times> world" where
  "TranslationAgent_process_request E self0 request_data w =
     (let self = log_request self0;
          request_type = dict_get request_data ''type'';
          (result, w1) =
            (if request_type = PStr ''text_translation'' then translate_text E self request_data w
             else if request_type = PStr ''batch_translation'' then batch_translate E self request_data w
             else if request_type = PStr ''cultural_context''
               then provide_cultural_context E self request_data w
             else if request_type = PStr ''business_etiquette''
               then provide_business_etiquette E self request_data w
             else if request_type = PStr ''language_detection'' then detect_language E self request_data w
             else returns (format_error_response E self
                    (''Unknown request type: '' @ py_str E request_type) w))
      in (result, self, w1))"

section \<open>MarketResearchAgent\<close>

definition MarketResearchAgent_init :: "env \<Rightarrow> world \<Rightarrow> agent \<times> world" where
  "MarketResearchAgent_init E w =
     BaseAgent_init E MarketResearchAgent ''MarketResearchAgent''
       [''market_analysis'', ''contact_discovery'', ''trend_analysis'', ''opportunity_matching''] w"

text \<open>
  \<open>_analyze_market\<close>. Inside the \<open>try\<close> block only the decoder can raise; the enclosing
  \<open>except Exception\<close> turns that into an error envelope.
\<close>

definition analyze_market :: "env \<Rightarrow> agent \<Rightarrow> pydict \<Rightarrow> world \<Rightarrow> (exn + pyval) \<times> world" where
  "analyze_market E self request_data w =
     (if \<not> validate_request request_data [''product_name'', ''target_country'']
      then returns (format_error_response E self ''Missing required fields for market analysis'' w)
      else
        let product_name = dict_get request_data ''product_name'';
            target_country = dict_get request_data ''target_country'';
            product_category = dict_get_default request_data ''product_category'' (PStr ''General'');
            messages = (MarketAnalysisPrompt,
              [py_str E product_name, py_str E target_country, py_str E product_category]);
            (ai_response, w1) = call_openai_gpt E messages w
        in (case loads_or_fallback E ai_response
                  (PDict [(''analysis_text'', PStr ai_response),
                          (''market_size'', PDict [(''value'', PStr ''Data not available''),
                                                   (''currency'', PStr ''USD''),
                                                   (''year'', PStr ''2024'')]),
                          (''growth_rate'', PStr ''To be determined''),
                          (''recommendations'', PList [PStr ''Conduct detailed market survey'',
                                                       PStr ''Engage local partners''])]) of
              Inr market_data \<Rightarrow>
                returns (format_success_response E self
                  (PDict [(''market_analysis'', market_data),
                          (''product'', product_name),
                          (''target_country'', target_country),
                          (''analysis_date'', PStr (created_at self))]) w1)
            | Inl e \<Rightarrow>
                returns (format_error_response E self
                  (''Market analysis failed: '' @ exn_str e) w1)))"

text \<open>
  \<open>_generate_mock_contacts\<close>. The string methods raise on a value that is not a string,
  in the order in which the dict literal evaluates them.
\<close>

definition generate_mock_contacts :: "env \<Rightarrow> pyval \<Rightarrow> pyval \<Rightarrow> pyval \<Rightarrow> exn + pyval" where
  "generate_mock_contacts E country industry contact_type =
     (case method_lower country of
        Inl e \<Rightarrow> Inl e
      | Inr country_lower \<Rightarrow>
          (case (if country_lower = ''italy''
                 then (case method_lower industry of
                         Inl e \<Rightarrow> Inl e
                       | Inr industry_lower \<Rightarrow> Inr (str_contains industry_lower ''coffee''))
                 else Inr False) of
             Inl e \<Rightarrow> Inl e
           | Inr True \<Rightarrow>
               Inr (PList
                 [PDict [(''company_name'', PStr ''Milano Coffee Roasters''),
                         (''contact_person'', PStr ''Marco Rossi''),
                         (''position'', PStr ''Procurement Manager''),
                         (''email'', PStr ''marco.rossi@milanocoffee.it''),
                         (''phone'', PStr ''+39 02 1234567''),
                         (''address'', PStr ''Via Roma 123, 20121 Milano, Italy''),
                         (''company_size'', PStr ''50-100 employees''),
                         (''website'', PStr ''https://milanocoffee.it''),
                         (''description'',
                            PStr ''Premium coffee roaster specializing in single-origin beans''),
                         (''verified'', PBool True),
                         (''industry'', industry),
                         (''country'', country)],
                  PDict [(''company_name'', PStr ''Italian Coffee Distributors''),
                         (''contact_person'', PStr ''Giuseppe Bianchi''),
                         (''position'', PStr ''Import Director''),
                         (''email'', PStr ''g.bianchi@italiancoffee.com''),
                         (''phone'', PStr ''+39 06 7654321''),
                         (''address'', PStr ''Via Nazionale 456, 00100 Roma, Italy''),
                         (''company_size'', PStr ''100-500 employees''),
                         (''website'', PStr ''https://italiancoffee.com''),
                         (''description'', PStr ''Leading coffee distributor serving Italian market''),
                         (''verified'', PBool True),
                         (''industry'', industry),
                         (''country'', country)]])
           | Inr False \<Rightarrow>
               (case method_title contact_type of
                  Inl e \<Rightarrow> Inl e
                | Inr contact_title \<Rightarrow>
                    (case method_lower industry of
                       Inl e \<Rightarrow> Inl e
                     | Inr industry_lower \<Rightarrow>
                         Inr (PList
                           [PDict [(''company_name'', PStr (''Global '' @ py_str E industry @ '' Corp'')),
                                   (''contact_person'', PStr ''John Smith''),
                                   (''position'', PStr (contact_title @ '' Manager'')),
                                   (''email'', PStr (''j.smith@global''
                                      @ remove_spaces industry_lower @ ''.com'')),
                                   (''phone'', PStr ''+1 555 123 4567''),
                                   (''address'', PStr (''123 Business St, '' @ py_str E country)),
                                   (''company_size'', PStr ''100-500 employees''),
                                   (''website'', PStr (''https://global''
                                      @ remove_spaces industry_lower @ ''.com'')),
                                   (''description'', PStr (''Leading '' @ py_str E industry
                                      @ '' company in '' @ py_str E country)),
                                   (''verified'', PBool True),
                                   (''industry'', industry),
                                   (''country'', country)]])))))"

text \<open>
  \<open>_discover_contacts\<close>. An exception inside the \<open>try\<close> block (the decoder's, the mock
  generator's in the inner handler, \<open>len\<close> of a decoded value without length) reaches the
  outer handler, which generates the mock contacts again; what that raises leaves the
  handler.
\<close>

definition discover_contacts :: "env \<Rightarrow> agent \<Rightarrow> pydict \<Rightarrow> world \<Rightarrow> (exn + pyval) \<times> world" where
  "discover_contacts E self request_data w =
     (if \<not> validate_request request_data [''country'', ''industry'']
      then returns (format_error_response E self ''Missing required fields for contact discovery'' w)
      else
        let country = dict_get request_data ''country'';
            industry = dict_get request_data ''industry'';
            company_size = dict_get_default request_data ''company_size'' (PStr ''any'');
            contact_type = dict_get_default request_data ''contact_type'' (PStr ''buyer'');
            messages = (ContactDiscoveryPrompt,
              [py_str E contact_type, py_str E industry, py_str E country, py_str E company_size]);
            (ai_response, w1) = call_openai_gpt E messages w;
            parsed = (case json_loads E ai_response of
                        Inr v \<Rightarrow> Inr v
                      | Inl e \<Rightarrow>
                          (case e of
                             JSONDecodeError m \<Rightarrow>
                               generate_mock_contacts E country industry contact_type
                           | _ \<Rightarrow> Inl e));
            data = (case parsed of
                      Inl e \<Rightarrow> Inl e
                    | Inr contacts \<Rightarrow>
                        (case py_len contacts of
                           Inl e \<Rightarrow> Inl e
                         | Inr n \<Rightarrow>
                             Inr (PDict [(''contacts'', contacts),
                                         (''total_found'', PInt n),
                                         (''search_criteria'',
                                            PDict [(''country'', country),
                                                   (''industry'', industry),
                                                   (''company_size'', company_size),
                                                   (''contact_type'', contact_type)])])))
        in (case data of
              Inr d \<Rightarrow> returns (format_success_response E self d w1)
            | Inl e \<Rightarrow>
                (case generate_mock_contacts E country industry contact_type of
                   Inl e' \<Rightarrow> (Inl e', w1)
                 | Inr contacts \<Rightarrow>
                     (case py_len contacts of
                        Inl e' \<Rightarrow> (Inl e', w1)
                      | Inr n \<Rightarrow>
                          returns (format_success_response E self
                            (PDict [(''contacts'', contacts),
                                    (''total_found'', PInt n),
                                    (''note'', PStr ''Using sample data due to API limitations'')])
                            w1)))))"

definition analyze_trends :: "env \<Rightarrow> agent \<Rightarrow> pydict \<Rightarrow> world \<Rightarrow> (exn + pyval) \<times> world" where
  "analyze_trends E self request_data w =
     (if \<not> validate_request request_data [''country'']
      then returns (format_error_response E self ''Missing required fields for trend analysis'' w)
      else
        let country = dict_get request_data ''country'';
            industry = dict_get_default request_data ''industry'' (PStr ''General'');
            timeframe = dict_get_default request_data ''timeframe'' (PStr ''2024-2025'');
            messages = (TrendAnalysisPrompt,
              [py_str E industry, py_str E country, py_str E timeframe]);
            (ai_response, w1) = call_openai_gpt E messages w
        in (case loads_or_fallback E ai_response
                  (PDict [(''trends_text'', PStr ai_response),
                          (''market_outlook'', PStr ''neutral''),
                          (''recommendations'', PList [PStr ''Conduct detailed trend analysis'',
                                                       PStr ''Monitor market developments''])]) of
              Inr trends_data \<Rightarrow>
                returns (format_success_response E self
                  (PDict [(''trends_analysis'', trends_data),
                          (''country'', country),
                          (''industry'', industry),
                          (''timeframe'', timeframe)]) w1)
            | Inl e \<Rightarrow>
                returns (format_error_response E self
                  (''Trend analysis failed: '' @ exn_str e) w1)))"

text \<open>
  The inner loop of \<open>_match_opportunities\<close>: each decoded opportunity receives the
  product and is appended at once, so the entries before a failing one stay.
\<close>

fun attach_product ::
  "string \<Rightarrow> pyval list \<Rightarrow> pyval \<Rightarrow> pyval list \<Rightarrow> exn option \<times> pyval list" where
  "attach_product key [] product acc = (None, acc)"
| "attach_product key (opp # rest) product acc =
     (case set_item opp key product of
        Inl e \<Rightarrow> (Some e, acc)
      | Inr opp' \<Rightarrow> attach_product key rest product (acc @ [opp']))"

text \<open>
  The \<open>try\<close> statement of one iteration of \<open>_match_opportunities\<close>; an exception other
  than the decoder's \<open>JSONDecodeError\<close> is printed and the loop goes on.
\<close>

definition opportunities_for ::
  "env \<Rightarrow> pyval \<Rightarrow> string \<Rightarrow> string \<Rightarrow> pyval list \<Rightarrow> pyval list" where
  "opportunities_for E product product_name ai_response opportunities =
     (case json_loads E ai_response of
        Inr product_opportunities \<Rightarrow>
          (case py_iter product_opportunities of
             Inl e \<Rightarrow> opportunities
           | Inr opps \<Rightarrow> snd (attach_product ''matched_product'' opps product opportunities))
      | Inl e \<Rightarrow>
          (case e of
             JSONDecodeError m \<Rightarrow>
               opportunities @
               [PDict [(''title'', PStr (''Export Opportunity for '' @ product_name)),
                       (''description'', PStr (''Potential market opportunity for '' @ product_name
                          @ '' in international markets'')),
                       (''market'', PStr ''Global''),
                       (''potential_value'', PStr ''To be determined''),
                       (''confidence'', PInt 70),
                       (''matched_product'', product),
                       (''requirements'', PList [PStr ''Market research'',
                                                 PStr ''Regulatory compliance'']),
                       (''next_steps'', PList [PStr ''Contact potential buyers'',
                                               PStr ''Prepare samples''])]]
           | _ \<Rightarrow> opportunities))"

text \<open>
  The outer loop of \<open>_match_opportunities\<close>. Reading the product's fields and joining
  the target countries stand before the \<open>try\<close> statement: what they raise leaves the
  handler.
\<close>

fun match_loop ::
  "env \<Rightarrow> pyval \<Rightarrow> pyval list \<Rightarrow> pyval list \<Rightarrow> world \<Rightarrow> (exn + pyval list) \<times> world" where
  "match_loop E target_countries [] opportunities w = (Inr opportunities, w)"
| "match_loop E target_countries (product # rest) opportunities w =
     (case method_get product ''name'' (PStr ''Unknown Product'') of
        Inl e \<Rightarrow> (Inl e, w)
      | Inr product_name \<Rightarrow>
          (case method_get product ''category'' (PStr ''General'') of
             Inl e \<Rightarrow> (Inl e, w)
           | Inr product_category \<Rightarrow>
               (case (if truthy target_countries then comma_join target_countries
                      else Inr ''Global'') of
                  Inl e \<Rightarrow> (Inl e, w)
                | Inr countries \<Rightarrow>
                    let messages = (OpportunityPrompt,
                          [py_str E product_name, py_str E product_category, countries]);
                        (ai_response, w1) = call_openai_gpt E messages w
                    in match_loop E target_countries rest
                         (opportunities_for E product (py_str E product_name) ai_response
                            opportunities) w1)))"

definition match_opportunities :: "env \<Rightarrow> agent \<Rightarrow> pydict \<Rightarrow> world \<Rightarrow> (exn + pyval) \<times> world" where
  "match_opportunities E self request_data w =
     (if \<not> validate_request request_data [''products'']
      then returns (format_error_response E self
             ''Missing required fields for opportunity matching'' w)
      else
        let products = dict_get request_data ''products'';
            target_countries = dict_get_default request_data ''target_countries'' (PList [])
        in (case py_iter products of
              Inl e \<Rightarrow> (Inl e, w)
            | Inr ps \<Rightarrow>
                (case match_loop E target_countries ps [] w of
                   (Inl e, w1) \<Rightarrow> (Inl e, w1)
                 | (Inr opportunities, w1) \<Rightarrow>
                     (case py_len products of
                        Inl e \<Rightarrow> (Inl e, w1)
                      | Inr n \<Rightarrow>
                          returns (format_success_response E self
                            (PDict [(''opportunities'', PList opportunities),
                                    (''total_found'', PInt (int (length opportunities))),
                                    (''products_analyzed'', PInt n)]) w1)))))"

definition MarketResearchAgent_process_request ::
  "env \<Rightarrow> agent \<Rightarrow> pydict \<Rightarrow> world \<Rightarrow> (exn + pyval) \<times> agent \<times> world" where
  "MarketResearchAgent_process_request E self0 request_data w =
     (let self = log_request self0;
          request_type = dict_get request_data ''type'';
          (result, w1) =
            (if request_type = PStr ''market_analysis'' then analyze_market E self request_data w
             else if request_type = PStr ''contact_discovery''
               then discover_contacts E self request_data w
             else if request_type = PStr ''trend_analysis'' then analyze_trends E self request_data w
             else if request_type = PStr ''opportunity_matching''
               then match_opportunities E self request_data w
             else returns (format_error_response E self
                    (''Unknown request type: '' @ py_str E request_type) w))
      in (result, self, w1))"

section \<open>BusinessIntelligenceAgent\<close>

definition BusinessIntelligenceAgent_init :: "env \<Rightarrow> world \<Rightarrow> agent \<times> world" where
  "BusinessIntelligenceAgent_init E w =
     BaseAgent_init E BusinessIntelligenceAgent ''BusinessIntelligenceAgent''
       [''user_analytics'', ''performance_insights'', ''recommendations'', ''trend_prediction''] w"

text \<open>\<open>_analyze_user_performance\<close>: the payload reads the clock before the formatter does.\<close>

definition analyze_user_performance ::
  "env \<Rightarrow> agent \<Rightarrow> pydict \<Rightarrow> world \<Rightarrow> (exn + pyval) \<times> world" where
  "analyze_user_performance E self request_data w =
     (if \<not> validate_request request_data [''user_id'']
      then returns (format_error_response E self ''Missing required fields for user analytics'' w)
      else
        let user_id = dict_get request_data ''user_id'';
            time_period = dict_get_default request_data ''time_period'' (PStr ''30_days'');
            messages = (UserAnalyticsPrompt, [py_str E time_period]);
            (ai_response, w1) = call_openai_gpt E messages w
        in (case loads_or_fallback E ai_response
                  (PDict [(''performance_score'', PInt 75),
                          (''profile_completion'', PInt 80),
                          (''recommendations'', PList [PStr ''Complete your business profile'',
                                                       PStr ''Add more product photos'',
                                                       PStr ''Respond to messages faster'']),
                          (''analysis_text'', PStr ai_response)]) of
              Inr analytics_data \<Rightarrow>
                let (generated_at, w2) = read_clock E w1
                in returns (format_success_response E self
                     (PDict [(''user_analytics'', analytics_data),
                             (''user_id'', user_id),
                             (''time_period'', time_period),
                             (''generated_at'', PStr generated_at)]) w2)
            | Inl e \<Rightarrow>
                returns (format_error_response E self
                  (''User analytics failed: '' @ exn_str e) w1)))"

text \<open>The \<open>try\<close> statement of one iteration of \<open>_analyze_product_performance\<close>.\<close>

definition insight_for :: "env \<Rightarrow> pyval \<Rightarrow> string \<Rightarrow> pyval list \<Rightarrow> pyval list" where
  "insight_for E product ai_response product_insights =
     (case json_loads E ai_response of
        Inr insight_data \<Rightarrow>
          (case set_item insight_data ''product'' product of
             Inl e \<Rightarrow> product_insights
           | Inr d \<Rightarrow> product_insights @ [d])
      | Inl e \<Rightarrow>
          (case e of
             JSONDecodeError m \<Rightarrow>
               product_insights @
               [PDict [(''product'', product),
                       (''performance_score'', PInt 70),
                       (''analysis_text'', PStr ai_response),
                       (''optimization_tips'', PList [PStr ''Improve product description'',
                                                      PStr ''Add more images''])]]
           | _ \<Rightarrow> product_insights))"

fun insights_loop ::
  "env \<Rightarrow> pyval list \<Rightarrow> pyval list \<Rightarrow> world \<Rightarrow> (exn + pyval list) \<times> world" where
  "insights_loop E [] product_insights w = (Inr product_insights, w)"
| "insights_loop E (product # rest) product_insights w =
     (case method_get product ''name'' (PStr ''Unknown Product'') of
        Inl e \<Rightarrow> (Inl e, w)
      | Inr product_name \<Rightarrow>
          (case method_get product ''category'' (PStr ''General'') of
             Inl e \<Rightarrow> (Inl e, w)
           | Inr product_category \<Rightarrow>
               let messages = (ProductInsightsPrompt,
                     [py_str E product_name, py_str E product_category]);
                   (ai_response, w1) = call_openai_gpt E messages w
               in insights_loop E rest (insight_for E product ai_response product_insights) w1))"

text \<open>\<open>sum(p.get('performance_score', 70) for p in product_insights)\<close>, from the running total.\<close>

fun sum_scores :: "pyval \<Rightarrow> pyval list \<Rightarrow> exn + pyval" where
  "sum_scores acc [] = Inr acc"
| "sum_scores acc (p # ps) =
     (case method_get p ''performance_score'' (PInt 70) of
        Inl e \<Rightarrow> Inl e
      | Inr v \<Rightarrow> (case py_add acc v of Inl e \<Rightarrow> Inl e | Inr t \<Rightarrow> sum_scores t ps))"

definition analyze_product_performance ::
  "env \<Rightarrow> agent \<Rightarrow> pydict \<Rightarrow> world \<Rightarrow> (exn + pyval) \<times> world" where
  "analyze_product_performance E self request_data w =
     (if \<not> validate_request request_data [''products'']
      then returns (format_error_response E self ''Missing required fields for product insights'' w)
      else
        let products = dict_get request_data ''products''
        in (case py_iter products of
              Inl e \<Rightarrow> (Inl e, w)
            | Inr ps \<Rightarrow>
                (case insights_loop E ps [] w of
                   (Inl e, w1) \<Rightarrow> (Inl e, w1)
                 | (Inr product_insights, w1) \<Rightarrow>
                     (case py_len products of
                        Inl e \<Rightarrow> (Inl e, w1)
                      | Inr n \<Rightarrow>
                          (case (if product_insights \<noteq> []
                                 then (case sum_scores (PInt 0) product_insights of
                                         Inl e \<Rightarrow> Inl e
                                       | Inr score_sum \<Rightarrow>
                                           true_divide score_sum
                                             (int (length product_insights)))
                                 else Inr (PInt 0)) of
                             Inl e \<Rightarrow> (Inl e, w1)
                           | Inr score \<Rightarrow>
                               returns (format_success_response E self
                                 (PDict [(''product_insights'', PList product_insights),
                                         (''total_products_analyzed'', PInt n),
                                         (''overall_portfolio_score'', score)]) w1))))))"

text \<open>
  \<open>_generate_market_recommendations\<close>: \<open>user_profile.get\<close> stands before the \<open>try\<close>
  block, so a profile that is not a dict raises out of the handler.
\<close>

definition generate_market_recommendations ::
  "env \<Rightarrow> agent \<Rightarrow> pydict \<Rightarrow> world \<Rightarrow> (exn + pyval) \<times> world" where
  "generate_market_recommendations E self request_data w =
     (if \<not> validate_request request_data [''user_profile'']
      then returns (format_error_response E self
             ''Missing required fields for market recommendations'' w)
      else
        let user_profile = dict_get request_data ''user_profile''
        in (case method_get user_profile ''country'' (PStr ''Unknown'') of
              Inl e \<Rightarrow> (Inl e, w)
            | Inr user_country \<Rightarrow>
                let user_industry = dict_get_default request_data ''industry'' (PStr ''General'');
                    messages = (RecommendationsPrompt,
                      [py_str E user_country, py_str E user_industry]);
                    (ai_response, w1) = call_openai_gpt E messages w
                in (case loads_or_fallback E ai_response
                          (PDict [(''recommendations_text'', PStr ai_response),
                                  (''priority_markets'',
                                     PList [PDict [(''country'', PStr ''Global''),
                                                   (''opportunity_score'', PInt 75)]]),
                                  (''strategic_recommendations'',
                                     PList [PDict [(''recommendation'',
                                                      PStr ''Conduct market research''),
                                                   (''priority'', PStr ''high'')]])]) of
                      Inr recommendations_data \<Rightarrow>
                        returns (format_success_response E self
                          (PDict [(''market_recommendations'', recommendations_data),
                                  (''user_country'', user_country),
                                  (''industry'', user_industry)]) w1)
                    | Inl e \<Rightarrow>
                        returns (format_error_response E self
                          (''Market recommendations failed: '' @ exn_str e) w1))))"

definition analyze_competition :: "env \<Rightarrow> agent \<Rightarrow> pydict \<Rightarrow> world \<Rightarrow> (exn + pyval) \<times> world" where
  "analyze_competition E self request_data w =
     (if \<not> validate_request request_data [''industry'', ''target_market'']
      then returns (format_error_response E self
             ''Missing required fields for competitive analysis'' w)
      else
        let industry = dict_get request_data ''industry'';
            target_market = dict_get request_data ''target_market'';
            messages = (CompetitionPrompt, [py_str E industry, py_str E target_market]);
            (ai_response, w1) = call_openai_gpt E messages w
        in (case loads_or_fallback E ai_response
                  (PDict [(''analysis_text'', PStr ai_response),
                          (''market_dynamics'', PDict [(''competition_intensity'', PStr ''medium'')]),
                          (''recommendations'',
                             PList [PStr ''Conduct detailed competitive research''])]) of
              Inr competition_data \<Rightarrow>
                returns (format_success_response E self
                  (PDict [(''competitive_analysis'', competition_data),
                          (''industry'', industry),
                          (''target_market'', target_market)]) w1)
            | Inl e \<Rightarrow>
                returns (format_error_response E self
                  (''Competitive analysis failed: '' @ exn_str e) w1)))"

text \<open>
  \<open>_identify_growth_opportunities\<close>: the two \<open>user_data.get\<close>, the join of the current
  markets and \<open>len(products)\<close> stand before the \<open>try\<close> block.
\<close>

definition identify_growth_opportunities ::
  "env \<Rightarrow> agent \<Rightarrow> pydict \<Rightarrow> world \<Rightarrow> (exn + pyval) \<times> world" where
  "identify_growth_opportunities E self request_data w =
     (if \<not> validate_request request_data [''user_data'']
      then returns (format_error_response E self
             ''Missing required fields for growth opportunities'' w)
      else
        let user_data = dict_get request_data ''user_data''
        in (case method_get user_data ''current_markets'' (PList []) of
              Inl e \<Rightarrow> (Inl e, w)
            | Inr current_markets \<Rightarrow>
                (case method_get user_data ''products'' (PList []) of
                   Inl e \<Rightarrow> (Inl e, w)
                 | Inr products \<Rightarrow>
                     (case (if truthy current_markets then comma_join current_markets
                            else Inr ''None specified'') of
                        Inl e \<Rightarrow> (Inl e, w)
                      | Inr markets \<Rightarrow>
                          (case py_len products of
                             Inl e \<Rightarrow> (Inl e, w)
                           | Inr n \<Rightarrow>
                               let messages = (GrowthPrompt, [markets, int_str n]);
                                   (ai_response, w1) = call_openai_gpt E messages w
                               in (case loads_or_fallback E ai_response
                                         (PDict [(''growth_analysis'', PStr ai_response),
                                                 (''growth_opportunities'',
                                                    PList [PDict
                                                      [(''type'', PStr ''market_expansion''),
                                                       (''title'', PStr ''Explore new markets''),
                                                       (''potential_impact'', PStr ''high''),
                                                       (''key_steps'',
                                                          PList [PStr ''Market research'',
                                                                 PStr ''Local partnerships''])]])]) of
                                     Inr growth_data \<Rightarrow>
                                       let (analysis_date, w2) = read_clock E w1
                                       in returns (format_success_response E self
                                            (PDict [(''growth_opportunities'', growth_data),
                                                    (''analysis_date'', PStr analysis_date)]) w2)
                                   | Inl e \<Rightarrow>
                                       returns (format_error_response E self
                                         (''Growth opportunity analysis failed: '' @ exn_str e)
                                         w1)))))))"

definition BusinessIntelligenceAgent_process_request ::
  "env \<Rightarrow> agent \<Rightarrow> pydict \<Rightarrow> world \<Rightarrow> (exn + pyval) \<times> agent \<times> world" where
  "BusinessIntelligenceAgent_process_request E self0 request_data w =
     (let self = log_request self0;
          request_type = dict_get request_data ''type'';
          (result, w1) =
            (if request_type = PStr ''user_analytics''
               then analyze_user_performance E self request_data w
             else if request_type = PStr ''product_insights''
               then analyze_product_performance E self request_data w
             else if request_type = PStr ''market_recommendations''
               then generate_market_recommendations E self request_data w
             else if request_type = PStr ''competitive_analysis''
               then analyze_competition E self request_data w
             else if request_type = PStr ''growth_opportunities''
               then identify_growth_opportunities E self request_data w
             else returns (format_error_response E self
                    (''Unknown request type: '' @ py_str E request_type) w))
      in (result, self, w1))"

section \<open>AgentOrchestrator\<close>

text \<open>The registry is a dict from component name to agent; \<open>process_request\<close> is the
  method of the agent's class.\<close>

record orchestrator =
  agents :: "(string \<times> agent) list"
  running :: bool

definition AgentOrchestrator_init :: orchestrator where
  "AgentOrchestrator_init = \<lparr>agents = [], running = False\<rparr>"

definition register_agent :: "orchestrator \<Rightarrow> agent \<Rightarrow> orchestrator" where
  "register_agent orch a = orch\<lparr>agents := AList.update (name a) a (agents orch)\<rparr>"

definition get_agent :: "orchestrator \<Rightarrow> string \<Rightarrow> agent option" where
  "get_agent orch agent_name = map_of (agents orch) agent_name"

definition process_request ::
  "env \<Rightarrow> agent \<Rightarrow> pydict \<Rightarrow> world \<Rightarrow> (exn + pyval) \<times> agent \<times> world" where
  "process_request E self request_data w =
     (case agent_kind self of
        MarketResearchAgent \<Rightarrow> MarketResearchAgent_process_request E self request_data w
      | TranslationAgent \<Rightarrow> TranslationAgent_process_request E self request_data w
      | BusinessIntelligenceAgent \<Rightarrow>
          BusinessIntelligenceAgent_process_request E self request_data w)"

text \<open>
  \<open>route_request\<close>. The agent is an object of the registry, so what \<open>process_request\<close>
  does to it stays in the registry, also when the call raises.
\<close>

definition route_request ::
  "env \<Rightarrow> orchestrator \<Rightarrow> string \<Rightarrow> pydict \<Rightarrow> world \<Rightarrow> pyval \<times> orchestrator \<times> world" where
  "route_request E orch agent_name request_data w =
     (case get_agent orch agent_name of
        None \<Rightarrow>
          (PDict [(''success'', PBool False),
                  (''error'', PStr (''Agent '' @ agent_name @ '' not found'')),
                  (''available_agents'', PList (map (\<lambda>kv. PStr (fst kv)) (agents orch)))],
           orch, w)
      | Some a \<Rightarrow>
          let (result, a', w1) = process_request E a request_data w;
              orch' = orch\<lparr>agents := AList.update agent_name a' (agents orch)\<rparr>
          in (case result of
                Inr r \<Rightarrow> (r, orch', w1)
              | Inl e \<Rightarrow>
                  (PDict [(''success'', PBool False),
                          (''error'', PStr (''Agent '' @ agent_name
                             @ '' failed to process request: '' @ exn_str e)),
                          (''agent'', PStr agent_name)],
                   orch', w1)))"

section \<open>AgentManager\<close>

text \<open>
  \<open>_initialize_agents\<close>, where the three constructors succeed: each reads the clock once
  and the agents are registered in the order market research, translation, business
  intelligence.
\<close>

definition initialize_agents :: "env \<Rightarrow> orchestrator \<Rightarrow> world \<Rightarrow> orchestrator \<times> world" where
  "initialize_agents E orch w =
     (let (market_agent, w1) = MarketResearchAgent_init E w;
          (translation_agent, w2) = TranslationAgent_init E w1;
          (business_agent, w3) = BusinessIntelligenceAgent_init E w2
      in (register_agent (register_agent (register_agent orch market_agent) translation_agent)
            business_agent, w3))"

text \<open>\<open>x or 'General'\<close>.\<close>

definition or_default :: "pyval \<Rightarrow> pyval \<Rightarrow> pyval" where
  "or_default x dflt = (if truthy x then x else dflt)"

definition AgentManager_analyze_market ::
  "env \<Rightarrow> orchestrator \<Rightarrow> pyval \<Rightarrow> pyval \<Rightarrow> pyval \<Rightarrow> world \<Rightarrow> pyval \<times> orchestrator \<times> world" where
  "AgentManager_analyze_market E orch product_name target_country product_category w =
     route_request E orch ''MarketResearchAgent''
       [(''type'', PStr ''market_analysis''),
        (''product_name'', product_name),
        (''target_country'', target_country),
        (''product_category'', or_default product_category (PStr ''General''))] w"

definition AgentManager_discover_contacts ::
  "env \<Rightarrow> orchestrator \<Rightarrow> pyval \<Rightarrow> pyval \<Rightarrow> pyval \<Rightarrow> pyval \<Rightarrow> world
   \<Rightarrow> pyval \<times> orchestrator \<times> world" where
  "AgentManager_discover_contacts E orch country industry company_size contact_type w =
     route_request E orch ''MarketResearchAgent''
       [(''type'', PStr ''contact_discovery''),
        (''country'', country),
        (''industry'', industry),
        (''company_size'', company_size),
        (''contact_type'', contact_type)] w"

definition AgentManager_analyze_trends ::
  "env \<Rightarrow> orchestrator \<Rightarrow> pyval \<Rightarrow> pyval \<Rightarrow> pyval \<Rightarrow> world \<Rightarrow> pyval \<times> orchestrator \<times> world" where
  "AgentManager_analyze_trends E orch country industry timeframe w =
     route_request E orch ''MarketResearchAgent''
       [(''type'', PStr ''trend_analysis''),
        (''country'', country),
        (''industry'', industry),
        (''timeframe'', timeframe)] w"

text \<open>
  What \<open>asyncio.gather(..., return_exceptions=True)\<close> hands over for one sub-call is an
  exception or the value returned. Its slot in the aggregate and whether it counts as
  failed:
\<close>

fun result_data :: "exn + pyval \<Rightarrow> pyval" where
  "result_data (Inr (PDict d)) = (if truthy (dict_get d ''success'') then dict_get d ''data'' else PNone)"
| "result_data r = PNone"

fun result_failed :: "exn + pyval \<Rightarrow> bool" where
  "result_failed (Inl e) = True"
| "result_failed (Inr (PDict d)) = (\<not> truthy (dict_get d ''success''))"
| "result_failed (Inr v) = False"

text \<open>The compilation of the three gathered results in \<open>process_market_research_request\<close>.\<close>

definition compile_results ::
  "pydict \<Rightarrow> pyval \<Rightarrow> pyval \<Rightarrow> exn + pyval \<Rightarrow> exn + pyval \<Rightarrow> exn + pyval \<Rightarrow> pyval" where
  "compile_results research_data product_name target_country market_result contacts_result
      trends_result =
     PDict [(''success'', PBool True),
            (''research_id'', dict_get research_data ''research_id''),
            (''product_name'', product_name),
            (''target_country'', target_country),
            (''market_analysis'', result_data market_result),
            (''contacts'', result_data contacts_result),
            (''trends'', result_data trends_result),
            (''errors'', PList
               ((if result_failed market_result then [PStr ''Market analysis failed''] else [])
                @ (if result_failed contacts_result then [PStr ''Contact discovery failed''] else [])
                @ (if result_failed trends_result then [PStr ''Trend analysis failed''] else [])))]"

text \<open>
  \<open>process_market_research_request\<close>. No sub-call suspends (the completion call is
  synchronous), so the three run one after the other in the order given to \<open>gather\<close>;
  each goes through \<open>route_request\<close>, which returns an envelope and never raises.
\<close>

definition process_market_research_request ::
  "env \<Rightarrow> orchestrator \<Rightarrow> pydict \<Rightarrow> world \<Rightarrow> pyval \<times> orchestrator \<times> world" where
  "process_market_research_request E orch research_data w =
     (let product_name = dict_get_default research_data ''product_name'' (PStr ''Unknown Product'');
          target_country = dict_get_default research_data ''target_country'' (PStr ''Global'');
          product_category = dict_get_default research_data ''product_category'' (PStr ''General'');
          (market_result, orch1, w1) =
            AgentManager_analyze_market E orch product_name target_country product_category w;
          (contacts_result, orch2, w2) =
            AgentManager_discover_contacts E orch1 target_country product_category
              (PStr ''any'') (PStr ''buyer'') w1;
          (trends_result, orch3, w3) =
            AgentManager_analyze_trends E orch2 target_country product_category
              (PStr ''2024-2025'') w2
      in (compile_results research_data product_name target_country
            (Inr market_result) (Inr contacts_result) (Inr trends_result), orch3, w3))"

section \<open>A stubbed environment\<close>

text \<open>
  The collaborators stubbed as a test would stub them: the endpoint answers every call
  with one fixed completion, the decoder is given, and the clock is frozen.
\<close>

definition stub_env :: "string \<Rightarrow> (string \<Rightarrow> exn + pyval) \<Rightarrow> env" where
  "stub_env completion decoder =
     \<lparr>chat_create = (\<lambda>history msgs. Inr completion),
      json_loads = decoder,
      py_repr = (\<lambda>v. ''<repr>''),
      utcnow = (\<lambda>n. ''2024-01-01T00:00:00'')\<rparr>"

text \<open>A decoder that rejects every text, and one that accepts exactly one text.\<close>

definition no_json :: "string \<Rightarrow> exn + pyval" where
  "no_json s = Inl (JSONDecodeError ''Expecting value: line 1 column 1 (char 0)'')"








definition world0 :: world where
  "world0 = \<lparr>api_calls = [], clock_reads = 0\<rparr>"

definition an_agent :: "agent_class \<Rightarrow> string \<Rightarrow> agent" where
  "an_agent cls nm =
     \<lparr>name = nm, agent_kind = cls, capabilities = [], created_at = ''2024-01-01T00:00:00'',
       request_count = 0\<rparr>"

section \<open>Notions the properties are stated with\<close>

text \<open>The list of entries in the payload of what a batch translation returned, if there is one.\<close>

definition translations_of :: "exn + pyval \<Rightarrow> pyval list option" where
  "translations_of r =
     (case r of
        Inl e \<Rightarrow> None
      | Inr env \<Rightarrow>
          (case field env ''data'' of
             None \<Rightarrow> None
           | Some d \<Rightarrow>
               (case field d ''translations'' of
                  Some (PList trs) \<Rightarrow> Some trs
                | _ \<Rightarrow> None)))"

text \<open>
  An entry stands for the \<open>i\<close>-th text: it carries that index and that text as
  \<open>original\<close>, and unless it is marked successful the text is also its \<open>translated\<close>.
\<close>

definition entry_for :: "int \<Rightarrow> pyval \<Rightarrow> pyval \<Rightarrow> bool" where
  "entry_for i text e =
     (field e ''index'' = Some (PInt i) \<and> field e ''original'' = Some text
      \<and> (entry_success e \<or> field e ''translated'' = Some text))"


text \<open>A gathered sub-result that is an envelope announcing success.\<close>

fun result_succeeded :: "exn + pyval \<Rightarrow> bool" where
  "result_succeeded (Inr (PDict d)) = truthy (dict_get d ''success'')"
| "result_succeeded r = False"

text \<open>
  The capabilities of each agent class as the handlers declare them: the request type
  that selects the handler, the handler's \<open>required_fields\<close>, and the message of the
  envelope it returns when the validator rejects.
\<close>

fun capabilities_of :: "agent_class \<Rightarrow> (string \<times> string list \<times> string) list" where
  "capabilities_of MarketResearchAgent =
     [(''market_analysis'', [''product_name'', ''target_country''],
         ''Missing required fields for market analysis''),
      (''contact_discovery'', [''country'', ''industry''],
         ''Missing required fields for contact discovery''),
      (''trend_analysis'', [''country''],
         ''Missing required fields for trend analysis''),
      (''opportunity_matching'', [''products''],
         ''Missing required fields for opportunity matching'')]"
| "capabilities_of TranslationAgent =
     [(''text_translation'', [''text'', ''target_language''],
         ''Missing required fields for text translation''),
      (''batch_translation'', [''texts'', ''target_language''],
         ''Missing required fields for batch translation''),
      (''cultural_context'', [''country''],
         ''Missing required fields for cultural context''),
      (''business_etiquette'', [''country'', ''situation''],
         ''Missing required fields for business etiquette''),
      (''language_detection'', [''text''],
         ''Missing required fields for language detection'')]"
| "capabilities_of BusinessIntelligenceAgent =
     [(''user_analytics'', [''user_id''],
         ''Missing required fields for user analytics''),
      (''product_insights'', [''products''],
         ''Missing required fields for product insights''),
      (''market_recommendations'', [''user_profile''],
         ''Missing required fields for market recommendations''),
      (''competitive_analysis'', [''industry'', ''target_market''],
         ''Missing required fields for competitive analysis''),
      (''growth_opportunities'', [''user_data''],
         ''Missing required fields for growth opportunities'')]"

text \<open>A required key is missing from the request, or what it holds is falsy.\<close>

definition missing_or_falsy :: "pydict \<Rightarrow> string \<Rightarrow> bool" where
  "missing_or_falsy request_data k =
     (case map_of request_data k of None \<Rightarrow> True | Some v \<Rightarrow> \<not> truthy v)"

text \<open>The error message of an envelope, if it is an error envelope with a text.\<close>

definition envelope_error :: "exn + pyval \<Rightarrow> string option" where
  "envelope_error r =
     (case r of
        Inl e \<Rightarrow> None
      | Inr env \<Rightarrow> (case field env ''error'' of Some (PStr m) \<Rightarrow> Some m | _ \<Rightarrow> None))"

text \<open>What a handler returns when the validator rejects: the error envelope, one clock reading later.\<close>

definition rejected :: "env \<Rightarrow> agent \<Rightarrow> string \<Rightarrow> world \<Rightarrow> (exn + pyval) \<times> world" where
  "rejected E self message w =
     (Inr (PDict [(''success'', PBool False), (''error'', PStr message),
                  (''agent'', PStr (name self)),
                  (''timestamp'', PStr (utcnow E (clock_reads w)))]),
      w\<lparr>clock_reads := Suc (clock_reads w)\<rparr>)"





text \<open>The completion text that the endpoint's answer to the messages becomes.\<close>

definition completion_text :: "env \<Rightarrow> world \<Rightarrow> messages \<Rightarrow> string" where
  "completion_text E w msgs = fst (call_openai_gpt E msgs w)"







text \<open>
  The completion texts obtained when the messages are sent one call after the other,
  the first of them in world \<open>w\<close>.
\<close>

fun completions :: "env \<Rightarrow> world \<Rightarrow> messages list \<Rightarrow> string list" where
  "completions E w [] = []"
| "completions E w (msgs # rest) =
     completion_text E w msgs # completions E (snd (call_openai_gpt E msgs w)) rest"



section \<open>Properties\<close>

text \<open>
  C6. Every envelope the Response Formatter produces has the shape its success flag
  announces: \<open>format_success_response\<close> yields \<open>success = True\<close> with a \<open>data\<close> field (the
  payload given) and no \<open>error\<close> field; \<open>format_error_response\<close> yields
  \<open>success = False\<close> with an \<open>error\<close> field (the message given) and no \<open>data\<close> field.
\<close>

theorem C6_formatter_envelope_invariant:
  "field (fst (format_success_response E self data w)) ''success'' = Some (PBool True)
   \<and> field (fst (format_success_response E self data w)) ''data'' = Some data
   \<and> field (fst (format_success_response E self data w)) ''error'' = None
   \<and> field (fst (format_error_response E self msg w)) ''success'' = Some (PBool False)
   \<and> field (fst (format_error_response E self msg w)) ''error'' = Some (PStr msg)
   \<and> field (fst (format_error_response E self msg w)) ''data'' = None"
  by (simp add: format_success_response_def format_error_response_def read_clock_def)

lemma returns_pair [simp]: "returns (a, b) = (Inr a, b)"
  by (simp add: returns_def)

text \<open>
  C8. The example scenario: the request \<open>{type: "language_detection", text: "Bonjour"}\<close>
  with the completion endpoint answering \<open>"fr"\<close> yields the success envelope whose data
  holds \<open>detected_language = "fr"\<close>, \<open>language_name = "French"\<close> and
  \<open>confidence = 0.9\<close> (next to the text itself; the envelope also names the agent and
  carries the timestamp).
\<close>

theorem C8_language_detection_example:
  assumes "chat_create E (api_calls w) (DetectionPrompt, [''Bonjour'']) = Inr ''fr''"
  shows "fst (TranslationAgent_process_request E self
            [(''type'', PStr ''language_detection''), (''text'', PStr ''Bonjour'')] w)
         = Inr (PDict [(''success'', PBool True),
                       (''data'', PDict [(''text'', PStr ''Bonjour''),
                                         (''detected_language'', PStr ''fr''),
                                         (''language_name'', PStr ''French''),
                                         (''confidence'', PFloat (9 / 10))]),
                       (''agent'', PStr (name self)),
                       (''timestamp'', PStr (utcnow E (clock_reads w)))])"
  using assms
  by (simp add: TranslationAgent_process_request_def detect_language_def dict_get_def
      detect_language_internal_def call_openai_gpt_def format_success_response_def read_clock_def
      log_request_def str_strip_def str_lower_def is_space_def lower_char_def is_upper_def
      supported_languages_def Let_def)

theorem C8_language_detection_example_witness:
  "chat_create (stub_env ''fr'' no_json) (api_calls world0) (DetectionPrompt, [''Bonjour''])
     = Inr ''fr''
   \<and> fst (TranslationAgent_process_request (stub_env ''fr'' no_json)
            (an_agent TranslationAgent ''TranslationAgent'')
            [(''type'', PStr ''language_detection''), (''text'', PStr ''Bonjour'')] world0)
         = Inr (PDict [(''success'', PBool True),
                       (''data'', PDict [(''text'', PStr ''Bonjour''),
                                         (''detected_language'', PStr ''fr''),
                                         (''language_name'', PStr ''French''),
                                         (''confidence'', PFloat (9 / 10))]),
                       (''agent'', PStr ''TranslationAgent''),
                       (''timestamp'', PStr ''2024-01-01T00:00:00'')])"
proof -
  have h: "chat_create (stub_env ''fr'' no_json) (api_calls world0)
             (DetectionPrompt, [''Bonjour'']) = Inr ''fr''"
    by (simp add: stub_env_def)
  show ?thesis
    using h C8_language_detection_example [OF h, of "an_agent TranslationAgent ''TranslationAgent''"]
    by (simp add: an_agent_def world0_def stub_env_def)
qed

text \<open>
  C10. A batch translation request whose \<open>texts\<close> is the empty list is rejected by the
  validator, which takes the empty list for a missing value: the handler returns the
  error envelope with the message \<open>Missing required fields for batch translation\<close>, not
  a success envelope with no entries, and calls the completion endpoint not at all.
\<close>

theorem C10_empty_batch_rejected:
  assumes "map_of request_data ''texts'' = Some (PList [])"
  shows "batch_translate E self request_data w =
           (Inr (PDict [(''success'', PBool False),
                        (''error'', PStr ''Missing required fields for batch translation''),
                        (''agent'', PStr (name self)),
                        (''timestamp'', PStr (utcnow E (clock_reads w)))]),
            w\<lparr>clock_reads := Suc (clock_reads w)\<rparr>)"
  using assms
  by (simp add: batch_translate_def format_error_response_def read_clock_def)

theorem C10_empty_batch_rejected_witness:
  "map_of [(''texts'', PList []), (''target_language'', PStr ''es'')] ''texts'' = Some (PList [])
   \<and> batch_translate (stub_env ''hola'' no_json) (an_agent TranslationAgent ''TranslationAgent'')
         [(''texts'', PList []), (''target_language'', PStr ''es'')] world0 =
           (Inr (PDict [(''success'', PBool False),
                        (''error'', PStr ''Missing required fields for batch translation''),
                        (''agent'', PStr ''TranslationAgent''),
                        (''timestamp'', PStr ''2024-01-01T00:00:00'')]),
            \<lparr>api_calls = [], clock_reads = 1\<rparr>)"
proof -
  have h: "map_of [(''texts'', PList []), (''target_language'', PStr ''es'')] ''texts''
             = Some (PList [])"
    by simp
  show ?thesis
    using h C10_empty_batch_rejected [OF h, of "stub_env ''hola'' no_json"
        "an_agent TranslationAgent ''TranslationAgent''" world0]
    by (simp add: an_agent_def world0_def stub_env_def)
qed

lemma loop_entry_for:
  "entry_for i text
     (case batch_entry i text result of
        Inr e \<Rightarrow> e
      | Inl ex \<Rightarrow>
          PDict [(''index'', PInt i), (''original'', text), (''translated'', text),
                 (''success'', PBool False), (''error'', PStr (exn_str ex))])"
  by (auto simp: batch_entry_def entry_for_def entry_success_def split: sum.splits if_splits)

lemma batch_loop_entries:
  "\<exists>new. fst (batch_loop E self rd tlang slang ts i acc w) = acc @ new
         \<and> length new = length ts
         \<and> (\<forall>j<length ts. entry_for (i + int j) (ts ! j) (new ! j))"
proof (induction ts arbitrary: i acc w)
  case Nil
  then show ?case by simp
next
  case (Cons item rest)
  define request where "request =
     [(''text'', item), (''target_language'', tlang), (''source_language'', slang),
      (''context'', dict_get_default rd ''context'' (PStr ''general''))]"
  define result where "result = fst (translate_text E self request w)"
  define w1 where "w1 = snd (translate_text E self request w)"
  define entry where "entry =
     (case batch_entry i item result of
        Inr e \<Rightarrow> e
      | Inl ex \<Rightarrow>
          PDict [(''index'', PInt i), (''original'', item), (''translated'', item),
                 (''success'', PBool False), (''error'', PStr (exn_str ex))])"
  have step: "batch_loop E self rd tlang slang (item # rest) i acc w
              = batch_loop E self rd tlang slang rest (i + 1) (acc @ [entry]) w1"
    by (simp add: request_def result_def w1_def entry_def Let_def split: prod.splits)
  obtain new where new: "fst (batch_loop E self rd tlang slang rest (i + 1) (acc @ [entry]) w1)
                           = (acc @ [entry]) @ new"
      "length new = length rest"
      "\<forall>j<length rest. entry_for (i + 1 + int j) (rest ! j) (new ! j)"
    using Cons.IH by blast
  have e: "entry_for i item entry"
    unfolding entry_def by (rule loop_entry_for)
  have "\<forall>j<length (item # rest). entry_for (i + int j) ((item # rest) ! j) ((entry # new) ! j)"
  proof (intro allI impI)
    fix j assume j: "j < length (item # rest)"
    show "entry_for (i + int j) ((item # rest) ! j) ((entry # new) ! j)"
    proof (cases j)
      case 0
      then show ?thesis using e by simp
    next
      case (Suc k)
      then have "k < length rest" using j by simp
      then have "entry_for (i + 1 + int k) (rest ! k) (new ! k)" using new(3) by blast
      moreover have "i + 1 + int k = i + int j" using Suc by simp
      ultimately show ?thesis using Suc by simp
    qed
  qed
  then show ?case
    using step new(1,2) by (intro exI [of _ "entry # new"]) simp
qed

text \<open>
  C3 (as amended). For a request whose \<open>texts\<close> is a non-empty list of \<open>N\<close> values and
  whose target language is present and truthy, batch translation returns a success
  envelope with exactly \<open>N\<close> entries in input order: entry \<open>i\<close> carries index \<open>i\<close> and the
  \<open>i\<close>-th text as \<open>original\<close>, whatever happened to that element, and an entry not
  marked successful has the original text as its \<open>translated\<close> value. For the empty list
  the handler returns the validation error envelope, with no list of entries at all.
\<close>

theorem C3_batch_keeps_length_and_order:
  assumes "map_of request_data ''texts'' = Some (PList ts)"
    and "ts \<noteq> []"
    and "map_of request_data ''target_language'' = Some tlang"
    and "truthy tlang"
  shows "\<exists>env trs. fst (batch_translate E self request_data w) = Inr env
           \<and> field env ''success'' = Some (PBool True)
           \<and> translations_of (Inr env) = Some trs
           \<and> length trs = length ts
           \<and> (\<forall>i<length ts. entry_for (int i) (ts ! i) (trs ! i))"
proof -
  define slang where "slang = dict_get_default request_data ''source_language'' (PStr ''auto'')"
  obtain new where new: "fst (batch_loop E self request_data tlang slang ts 0 [] w) = [] @ new"
      "length new = length ts"
      "\<forall>j<length ts. entry_for (0 + int j) (ts ! j) (new ! j)"
    using batch_loop_entries by blast
  have "fst (batch_translate E self request_data w)
        = Inr (fst (format_success_response E self
             (PDict [(''translations'', PList new),
                     (''total_texts'', PInt (int (length ts))),
                     (''successful_translations'', PInt (int (length (filter entry_success new)))),
                     (''target_language'', tlang)])
             (snd (batch_loop E self request_data tlang slang ts 0 [] w))))"
    using assms new(1)
    by (simp add: batch_translate_def dict_get_def slang_def returns_def Let_def case_prod_beta)
  then show ?thesis
    using new(2,3)
    by (simp add: format_success_response_def read_clock_def translations_of_def)
qed

theorem C3_batch_keeps_length_and_order_witness:
  "map_of [(''texts'', PList [PStr ''a'', PStr [], PInt 3]), (''target_language'', PStr ''es'')]
      ''texts'' = Some (PList [PStr ''a'', PStr [], PInt 3])
   \<and> [PStr ''a'', PStr [], PInt 3] \<noteq> []
   \<and> map_of [(''texts'', PList [PStr ''a'', PStr [], PInt 3]), (''target_language'', PStr ''es'')]
      ''target_language'' = Some (PStr ''es'')
   \<and> truthy (PStr ''es'')
   \<and> (\<exists>env trs.
         fst (batch_translate (stub_env ''hola'' no_json)
                (an_agent TranslationAgent ''TranslationAgent'')
                [(''texts'', PList [PStr ''a'', PStr [], PInt 3]),
                 (''target_language'', PStr ''es'')] world0) = Inr env
         \<and> field env ''success'' = Some (PBool True)
         \<and> translations_of (Inr env) = Some trs
         \<and> length trs = 3
         \<and> entry_for 0 (PStr ''a'') (trs ! 0)
         \<and> entry_for 1 (PStr []) (trs ! 1)
         \<and> entry_for 2 (PInt 3) (trs ! 2))"
proof -
  let ?rd = "[(''texts'', PList [PStr ''a'', PStr [], PInt 3]), (''target_language'', PStr ''es'')]"
  have h1: "map_of ?rd ''texts'' = Some (PList [PStr ''a'', PStr [], PInt 3])" by simp
  have h2: "[PStr ''a'', PStr [], PInt 3] \<noteq> []" by simp
  have h3: "map_of ?rd ''target_language'' = Some (PStr ''es'')" by simp
  have h4: "truthy (PStr ''es'')" by simp
  obtain env trs where r:
      "fst (batch_translate (stub_env ''hola'' no_json)
              (an_agent TranslationAgent ''TranslationAgent'') ?rd world0) = Inr env"
      "field env ''success'' = Some (PBool True)"
      "translations_of (Inr env) = Some trs"
      "length trs = length [PStr ''a'', PStr [], PInt 3]"
      "\<forall>i<length [PStr ''a'', PStr [], PInt 3].
          entry_for (int i) ([PStr ''a'', PStr [], PInt 3] ! i) (trs ! i)"
    using C3_batch_keeps_length_and_order [OF h1 h2 h3 h4] by blast
  have e0: "entry_for 0 (PStr ''a'') (trs ! 0)" using r(5) [rule_format, of 0] by simp
  have e1: "entry_for 1 (PStr []) (trs ! 1)" using r(5) [rule_format, of 1] by simp
  have e2: "entry_for 2 (PInt 3) (trs ! 2)" using r(5) [rule_format, of 2] by simp
  have "length trs = 3" using r(4) by simp
  then show ?thesis using h1 h2 h3 h4 r(1,2,3) e0 e1 e2 by blast
qed

theorem C3_empty_batch_counterexample:
  "\<not> (\<exists>trs. translations_of
               (fst (batch_translate (stub_env ''hola'' no_json)
                       (an_agent TranslationAgent ''TranslationAgent'')
                       [(''texts'', PList []), (''target_language'', PStr ''es'')] world0))
             = Some trs
           \<and> length trs = length ([] :: pyval list))"
  by (simp add: batch_translate_def format_error_response_def read_clock_def translations_of_def)

lemma process_request_agent:
  "fst (snd (process_request E self request_data w)) = log_request self"
  by (simp add: process_request_def MarketResearchAgent_process_request_def
      TranslationAgent_process_request_def BusinessIntelligenceAgent_process_request_def
      Let_def case_prod_beta split: agent_class.splits)

text \<open>
  C9 (as amended). An invocation of an agent's \<open>process_request\<close> changes the agent's
  state in exactly one field: \<open>request_count\<close> grows by one (the effect of \<open>log_request\<close>);
  name, class, capabilities and creation time stay, also when the handler raises.
\<close>

theorem C9_only_request_count_changes:
  "fst (snd (process_request E self request_data w))
     = self\<lparr>request_count := request_count self + 1\<rparr>"
  by (simp add: process_request_agent log_request_def)

theorem C9_only_request_count_changes_witness:
  "fst (snd (process_request (stub_env ''fr'' no_json)
               (an_agent TranslationAgent ''TranslationAgent'')
               [(''type'', PStr ''language_detection''), (''text'', PStr ''Bonjour'')] world0))
     = \<lparr>name = ''TranslationAgent'', agent_kind = TranslationAgent, capabilities = [],
        created_at = ''2024-01-01T00:00:00'', request_count = 1\<rparr>"
  using C9_only_request_count_changes [of "stub_env ''fr'' no_json"
      "an_agent TranslationAgent ''TranslationAgent''"
      "[(''type'', PStr ''language_detection''), (''text'', PStr ''Bonjour'')]" world0]
  by (simp add: an_agent_def)

theorem C9_agent_state_changes_counterexample:
  "fst (snd (process_request (stub_env ''fr'' no_json)
               (an_agent TranslationAgent ''TranslationAgent'')
               [(''type'', PStr ''language_detection''), (''text'', PStr ''Bonjour'')] world0))
     \<noteq> an_agent TranslationAgent ''TranslationAgent''"
  by (simp add: process_request_agent log_request_def an_agent_def)

text \<open>
  C5. Dispatching to a name that is not in the registry returns the error envelope
  \<open>Agent <name> not found\<close> whose \<open>available_agents\<close> list holds exactly the registered
  names, the requested name not among them, and leaves registry and world as they were.
  When the registered agent's \<open>process_request\<close> raises, the dispatcher returns the error
  envelope that names the component and carries the exception's text.
\<close>

theorem C5_dispatch_errors:
  "(agent_name \<notin> fst ` set (agents orch) \<longrightarrow>
      (\<exists>names. route_request E orch agent_name request_data w =
          (PDict [(''success'', PBool False),
                  (''error'', PStr (''Agent '' @ agent_name @ '' not found'')),
                  (''available_agents'', PList (map PStr names))], orch, w)
        \<and> set names = fst ` set (agents orch)
        \<and> agent_name \<notin> set names))
   \<and> (\<forall>a e. get_agent orch agent_name = Some a
          \<and> fst (process_request E a request_data w) = Inl e \<longrightarrow>
        fst (route_request E orch agent_name request_data w) =
          PDict [(''success'', PBool False),
                 (''error'', PStr (''Agent '' @ agent_name @ '' failed to process request: ''
                    @ exn_str e)),
                 (''agent'', PStr agent_name)])"
proof (intro conjI impI allI)
  assume absent: "agent_name \<notin> fst ` set (agents orch)"
  then have none: "get_agent orch agent_name = None"
    by (simp add: get_agent_def map_of_eq_None_iff)
  have "route_request E orch agent_name request_data w =
          (PDict [(''success'', PBool False),
                  (''error'', PStr (''Agent '' @ agent_name @ '' not found'')),
                  (''available_agents'', PList (map PStr (map fst (agents orch))))], orch, w)"
    using none by (simp add: route_request_def comp_def)
  then show "\<exists>names. route_request E orch agent_name request_data w =
          (PDict [(''success'', PBool False),
                  (''error'', PStr (''Agent '' @ agent_name @ '' not found'')),
                  (''available_agents'', PList (map PStr names))], orch, w)
        \<and> set names = fst ` set (agents orch)
        \<and> agent_name \<notin> set names"
    using absent by (intro exI [of _ "map fst (agents orch)"]) simp
next
  fix a e
  assume "get_agent orch agent_name = Some a \<and> fst (process_request E a request_data w) = Inl e"
  then show "fst (route_request E orch agent_name request_data w) =
          PDict [(''success'', PBool False),
                 (''error'', PStr (''Agent '' @ agent_name @ '' failed to process request: ''
                    @ exn_str e)),
                 (''agent'', PStr agent_name)]"
    by (simp add: route_request_def case_prod_beta Let_def)
qed

theorem C5_dispatch_errors_witness:
  "''PricingAgent'' \<notin> fst ` set (agents (fst (initialize_agents (stub_env ''hola'' no_json)
        AgentOrchestrator_init world0)))
   \<and> fst (route_request (stub_env ''hola'' no_json)
           (fst (initialize_agents (stub_env ''hola'' no_json) AgentOrchestrator_init world0))
           ''PricingAgent'' [(''type'', PStr ''quote'')] world0)
       = PDict [(''success'', PBool False),
                (''error'', PStr ''Agent PricingAgent not found''),
                (''available_agents'', PList [PStr ''MarketResearchAgent'',
                   PStr ''TranslationAgent'', PStr ''BusinessIntelligenceAgent''])]
   \<and> get_agent (fst (initialize_agents (stub_env ''hola'' no_json) AgentOrchestrator_init world0))
         ''TranslationAgent''
       = Some ((an_agent TranslationAgent ''TranslationAgent'')
           \<lparr>capabilities := [''text_translation'', ''voice_translation'', ''cultural_context'',
              ''business_etiquette'']\<rparr>)
   \<and> fst (route_request (stub_env ''hola'' no_json)
           (fst (initialize_agents (stub_env ''hola'' no_json) AgentOrchestrator_init world0))
           ''TranslationAgent''
           [(''type'', PStr ''text_translation''), (''text'', PStr ''Hello''),
            (''target_language'', PList [PStr ''es''])] world0)
       = PDict [(''success'', PBool False),
                (''error'', PStr (''Agent TranslationAgent failed to process request: ''
                   @ ''unhashable type: '' @ quoted ''list'')),
                (''agent'', PStr ''TranslationAgent'')]"
proof -
  let ?E = "stub_env ''hola'' no_json"
  let ?O = "fst (initialize_agents ?E AgentOrchestrator_init world0)"
  let ?A = "(an_agent TranslationAgent ''TranslationAgent'')
           \<lparr>capabilities := [''text_translation'', ''voice_translation'', ''cultural_context'',
              ''business_etiquette'']\<rparr>"
  let ?rd = "[(''type'', PStr ''text_translation''), (''text'', PStr ''Hello''),
            (''target_language'', PList [PStr ''es''])]"
  have reg: "agents ?O =
      [(''MarketResearchAgent'', (an_agent MarketResearchAgent ''MarketResearchAgent'')
          \<lparr>capabilities := [''market_analysis'', ''contact_discovery'', ''trend_analysis'',
             ''opportunity_matching'']\<rparr>),
       (''TranslationAgent'', ?A),
       (''BusinessIntelligenceAgent'',
          (an_agent BusinessIntelligenceAgent ''BusinessIntelligenceAgent'')
          \<lparr>capabilities := [''user_analytics'', ''performance_insights'', ''recommendations'',
             ''trend_prediction'']\<rparr>)]"
    by (simp add: initialize_agents_def MarketResearchAgent_init_def TranslationAgent_init_def
        BusinessIntelligenceAgent_init_def BaseAgent_init_def read_clock_def register_agent_def
        AgentOrchestrator_init_def stub_env_def an_agent_def world0_def)
  have absent: "''PricingAgent'' \<notin> fst ` set (agents ?O)"
    by (simp add: reg)
  have got: "get_agent ?O ''TranslationAgent'' = Some ?A"
    by (simp add: get_agent_def reg)
  have raised: "fst (process_request ?E ?A ?rd world0)
      = Inl (TypeError (''unhashable type: '' @ quoted ''list''))"
    by (simp add: process_request_def TranslationAgent_process_request_def translate_text_def
        dict_get_def dict_get_default_def an_agent_def log_request_def)
  from C5_dispatch_errors [of "''PricingAgent''" ?O ?E "[(''type'', PStr ''quote'')]" world0]
  have a: "fst (route_request ?E ?O ''PricingAgent'' [(''type'', PStr ''quote'')] world0)
       = PDict [(''success'', PBool False),
                (''error'', PStr ''Agent PricingAgent not found''),
                (''available_agents'', PList [PStr ''MarketResearchAgent'',
                   PStr ''TranslationAgent'', PStr ''BusinessIntelligenceAgent''])]"
    using absent by (simp add: route_request_def get_agent_def reg)
  from C5_dispatch_errors [of "''TranslationAgent''" ?O ?E ?rd world0] got raised
  have b: "fst (route_request ?E ?O ''TranslationAgent'' ?rd world0)
       = PDict [(''success'', PBool False),
                (''error'', PStr (''Agent TranslationAgent failed to process request: ''
                   @ ''unhashable type: '' @ quoted ''list'')),
                (''agent'', PStr ''TranslationAgent'')]"
    by simp
  show ?thesis using absent a got b by blast
qed

lemma validate_request_rejects:
  "k \<in> set required \<Longrightarrow> missing_or_falsy request_data k
   \<Longrightarrow> \<not> validate_request request_data required"
  by (induction required) (auto simp: missing_or_falsy_def split: option.splits)

lemma format_error_rejected:
  "returns (format_error_response E self message w) = rejected E self message w"
  by (simp add: format_error_response_def read_clock_def rejected_def)

lemma analyze_market_rejects:
  "\<not> validate_request rd [''product_name'', ''target_country''] \<Longrightarrow>
   analyze_market E self rd w = rejected E self ''Missing required fields for market analysis'' w"
  by (simp add: analyze_market_def format_error_rejected del: validate_request.simps)

lemma discover_contacts_rejects:
  "\<not> validate_request rd [''country'', ''industry''] \<Longrightarrow>
   discover_contacts E self rd w
     = rejected E self ''Missing required fields for contact discovery'' w"
  by (simp add: discover_contacts_def format_error_rejected del: validate_request.simps)

lemma analyze_trends_rejects:
  "\<not> validate_request rd [''country''] \<Longrightarrow>
   analyze_trends E self rd w = rejected E self ''Missing required fields for trend analysis'' w"
  by (simp add: analyze_trends_def format_error_rejected del: validate_request.simps)

lemma match_opportunities_rejects:
  "\<not> validate_request rd [''products''] \<Longrightarrow>
   match_opportunities E self rd w
     = rejected E self ''Missing required fields for opportunity matching'' w"
  by (simp add: match_opportunities_def format_error_rejected del: validate_request.simps)

lemma translate_text_rejects:
  "\<not> validate_request rd [''text'', ''target_language''] \<Longrightarrow>
   translate_text E self rd w
     = rejected E self ''Missing required fields for text translation'' w"
  by (simp add: translate_text_def format_error_rejected del: validate_request.simps)

lemma batch_translate_rejects:
  "\<not> validate_request rd [''texts'', ''target_language''] \<Longrightarrow>
   batch_translate E self rd w
     = rejected E self ''Missing required fields for batch translation'' w"
  by (simp add: batch_translate_def format_error_rejected del: validate_request.simps)

lemma provide_cultural_context_rejects:
  "\<not> validate_request rd [''country''] \<Longrightarrow>
   provide_cultural_context E self rd w
     = rejected E self ''Missing required fields for cultural context'' w"
  by (simp add: provide_cultural_context_def format_error_rejected del: validate_request.simps)

lemma provide_business_etiquette_rejects:
  "\<not> validate_request rd [''country'', ''situation''] \<Longrightarrow>
   provide_business_etiquette E self rd w
     = rejected E self ''Missing required fields for business etiquette'' w"
  by (simp add: provide_business_etiquette_def format_error_rejected del: validate_request.simps)

lemma detect_language_rejects:
  "\<not> validate_request rd [''text''] \<Longrightarrow>
   detect_language E self rd w
     = rejected E self ''Missing required fields for language detection'' w"
  by (simp add: detect_language_def format_error_rejected del: validate_request.simps)

lemma analyze_user_performance_rejects:
  "\<not> validate_request rd [''user_id''] \<Longrightarrow>
   analyze_user_performance E self rd w
     = rejected E self ''Missing required fields for user analytics'' w"
  by (simp add: analyze_user_performance_def format_error_rejected del: validate_request.simps)

lemma analyze_product_performance_rejects:
  "\<not> validate_request rd [''products''] \<Longrightarrow>
   analyze_product_performance E self rd w
     = rejected E self ''Missing required fields for product insights'' w"
  by (simp add: analyze_product_performance_def format_error_rejected
      del: validate_request.simps)

lemma generate_market_recommendations_rejects:
  "\<not> validate_request rd [''user_profile''] \<Longrightarrow>
   generate_market_recommendations E self rd w
     = rejected E self ''Missing required fields for market recommendations'' w"
  by (simp add: generate_market_recommendations_def format_error_rejected
      del: validate_request.simps)

lemma analyze_competition_rejects:
  "\<not> validate_request rd [''industry'', ''target_market''] \<Longrightarrow>
   analyze_competition E self rd w
     = rejected E self ''Missing required fields for competitive analysis'' w"
  by (simp add: analyze_competition_def format_error_rejected del: validate_request.simps)

lemma identify_growth_opportunities_rejects:
  "\<not> validate_request rd [''user_data''] \<Longrightarrow>
   identify_growth_opportunities E self rd w
     = rejected E self ''Missing required fields for growth opportunities'' w"
  by (simp add: identify_growth_opportunities_def format_error_rejected
      del: validate_request.simps)

lemma market_dispatch:
  "map_of rd ''type'' = Some (PStr ty) \<Longrightarrow>
   MarketResearchAgent_process_request E self rd w =
     (let p = (if ty = ''market_analysis'' then analyze_market E (log_request self) rd w
               else if ty = ''contact_discovery'' then discover_contacts E (log_request self) rd w
               else if ty = ''trend_analysis'' then analyze_trends E (log_request self) rd w
               else if ty = ''opportunity_matching''
                 then match_opportunities E (log_request self) rd w
               else returns (format_error_response E (log_request self)
                      (''Unknown request type: '' @ ty) w))
      in (fst p, log_request self, snd p))"
  by (simp add: MarketResearchAgent_process_request_def dict_get_def Let_def case_prod_beta)

lemma translation_dispatch:
  "map_of rd ''type'' = Some (PStr ty) \<Longrightarrow>
   TranslationAgent_process_request E self rd w =
     (let p = (if ty = ''text_translation'' then translate_text E (log_request self) rd w
               else if ty = ''batch_translation'' then batch_translate E (log_request self) rd w
               else if ty = ''cultural_context''
                 then provide_cultural_context E (log_request self) rd w
               else if ty = ''business_etiquette''
                 then provide_business_etiquette E (log_request self) rd w
               else if ty = ''language_detection'' then detect_language E (log_request self) rd w
               else returns (format_error_response E (log_request self)
                      (''Unknown request type: '' @ ty) w))
      in (fst p, log_request self, snd p))"
  by (simp add: TranslationAgent_process_request_def dict_get_def Let_def case_prod_beta)

lemma business_dispatch:
  "map_of rd ''type'' = Some (PStr ty) \<Longrightarrow>
   BusinessIntelligenceAgent_process_request E self rd w =
     (let p = (if ty = ''user_analytics'' then analyze_user_performance E (log_request self) rd w
               else if ty = ''product_insights''
                 then analyze_product_performance E (log_request self) rd w
               else if ty = ''market_recommendations''
                 then generate_market_recommendations E (log_request self) rd w
               else if ty = ''competitive_analysis''
                 then analyze_competition E (log_request self) rd w
               else if ty = ''growth_opportunities''
                 then identify_growth_opportunities E (log_request self) rd w
               else returns (format_error_response E (log_request self)
                      (''Unknown request type: '' @ ty) w))
      in (fst p, log_request self, snd p))"
  by (simp add: BusinessIntelligenceAgent_process_request_def dict_get_def Let_def case_prod_beta)

lemma market_agent_rejects:
  assumes "(ty, required, message) \<in> set (capabilities_of MarketResearchAgent)"
    and "map_of rd ''type'' = Some (PStr ty)"
    and "\<not> validate_request rd required"
  shows "MarketResearchAgent_process_request E self rd w
         = (fst (rejected E (log_request self) message w), log_request self,
            snd (rejected E (log_request self) message w))"
proof -
  note d = market_dispatch [OF assms(2), of E self w]
  from assms(1) have
    "(ty = ''market_analysis'' \<and> required = [''product_name'', ''target_country'']
        \<and> message = ''Missing required fields for market analysis'')
     \<or> (ty = ''contact_discovery'' \<and> required = [''country'', ''industry'']
        \<and> message = ''Missing required fields for contact discovery'')
     \<or> (ty = ''trend_analysis'' \<and> required = [''country'']
        \<and> message = ''Missing required fields for trend analysis'')
     \<or> (ty = ''opportunity_matching'' \<and> required = [''products'']
        \<and> message = ''Missing required fields for opportunity matching'')"
    by simp
  then show ?thesis
  proof (elim disjE conjE)
    assume "ty = ''market_analysis''" "required = [''product_name'', ''target_country'']"
      "message = ''Missing required fields for market analysis''"
    with assms(3) d show ?thesis
      by (simp add: analyze_market_rejects Let_def del: validate_request.simps)
  next
    assume "ty = ''contact_discovery''" "required = [''country'', ''industry'']"
      "message = ''Missing required fields for contact discovery''"
    with assms(3) d show ?thesis
      by (simp add: discover_contacts_rejects Let_def del: validate_request.simps)
  next
    assume "ty = ''trend_analysis''" "required = [''country'']"
      "message = ''Missing required fields for trend analysis''"
    with assms(3) d show ?thesis
      by (simp add: analyze_trends_rejects Let_def del: validate_request.simps)
  next
    assume "ty = ''opportunity_matching''" "required = [''products'']"
      "message = ''Missing required fields for opportunity matching''"
    with assms(3) d show ?thesis
      by (simp add: match_opportunities_rejects Let_def del: validate_request.simps)
  qed
qed

lemma translation_agent_rejects:
  assumes "(ty, required, message) \<in> set (capabilities_of TranslationAgent)"
    and "map_of rd ''type'' = Some (PStr ty)"
    and "\<not> validate_request rd required"
  shows "TranslationAgent_process_request E self rd w
         = (fst (rejected E (log_request self) message w), log_request self,
            snd (rejected E (log_request self) message w))"
proof -
  note d = translation_dispatch [OF assms(2), of E self w]
  from assms(1) have
    "(ty = ''text_translation'' \<and> required = [''text'', ''target_language'']
        \<and> message = ''Missing required fields for text translation'')
     \<or> (ty = ''batch_translation'' \<and> required = [''texts'', ''target_language'']
        \<and> message = ''Missing required fields for batch translation'')
     \<or> (ty = ''cultural_context'' \<and> required = [''country'']
        \<and> message = ''Missing required fields for cultural context'')
     \<or> (ty = ''business_etiquette'' \<and> required = [''country'', ''situation'']
        \<and> message = ''Missing required fields for business etiquette'')
     \<or> (ty = ''language_detection'' \<and> required = [''text'']
        \<and> message = ''Missing required fields for language detection'')"
    by simp
  then show ?thesis
  proof (elim disjE conjE)
    assume "ty = ''text_translation''" "required = [''text'', ''target_language'']"
      "message = ''Missing required fields for text translation''"
    with assms(3) d show ?thesis
      by (simp add: translate_text_rejects Let_def del: validate_request.simps)
  next
    assume "ty = ''batch_translation''" "required = [''texts'', ''target_language'']"
      "message = ''Missing required fields for batch translation''"
    with assms(3) d show ?thesis
      by (simp add: batch_translate_rejects Let_def del: validate_request.simps)
  next
    assume "ty = ''cultural_context''" "required = [''country'']"
      "message = ''Missing required fields for cultural context''"
    with assms(3) d show ?thesis
      by (simp add: provide_cultural_context_rejects Let_def del: validate_request.simps)
  next
    assume "ty = ''business_etiquette''" "required = [''country'', ''situation'']"
      "message = ''Missing required fields for business etiquette''"
    with assms(3) d show ?thesis
      by (simp add: provide_business_etiquette_rejects Let_def del: validate_request.simps)
  next
    assume "ty = ''language_detection''" "required = [''text'']"
      "message = ''Missing required fields for language detection''"
    with assms(3) d show ?thesis
      by (simp add: detect_language_rejects Let_def del: validate_request.simps)
  qed
qed

lemma business_agent_rejects:
  assumes "(ty, required, message) \<in> set (capabilities_of BusinessIntelligenceAgent)"
    and "map_of rd ''type'' = Some (PStr ty)"
    and "\<not> validate_request rd required"
  shows "BusinessIntelligenceAgent_process_request E self rd w
         = (fst (rejected E (log_request self) message w), log_request self,
            snd (rejected E (log_request self) message w))"
proof -
  note d = business_dispatch [OF assms(2), of E self w]
  from assms(1) have
    "(ty = ''user_analytics'' \<and> required = [''user_id'']
        \<and> message = ''Missing required fields for user analytics'')
     \<or> (ty = ''product_insights'' \<and> required = [''products'']
        \<and> message = ''Missing required fields for product insights'')
     \<or> (ty = ''market_recommendations'' \<and> required = [''user_profile'']
        \<and> message = ''Missing required fields for market recommendations'')
     \<or> (ty = ''competitive_analysis'' \<and> required = [''industry'', ''target_market'']
        \<and> message = ''Missing required fields for competitive analysis'')
     \<or> (ty = ''growth_opportunities'' \<and> required = [''user_data'']
        \<and> message = ''Missing required fields for growth opportunities'')"
    by simp
  then show ?thesis
  proof (elim disjE conjE)
    assume "ty = ''user_analytics''" "required = [''user_id'']"
      "message = ''Missing required fields for user analytics''"
    with assms(3) d show ?thesis
      by (simp add: analyze_user_performance_rejects Let_def del: validate_request.simps)
  next
    assume "ty = ''product_insights''" "required = [''products'']"
      "message = ''Missing required fields for product insights''"
    with assms(3) d show ?thesis
      by (simp add: analyze_product_performance_rejects Let_def del: validate_request.simps)
  next
    assume "ty = ''market_recommendations''" "required = [''user_profile'']"
      "message = ''Missing required fields for market recommendations''"
    with assms(3) d show ?thesis
      by (simp add: generate_market_recommendations_rejects Let_def del: validate_request.simps)
  next
    assume "ty = ''competitive_analysis''" "required = [''industry'', ''target_market'']"
      "message = ''Missing required fields for competitive analysis''"
    with assms(3) d show ?thesis
      by (simp add: analyze_competition_rejects Let_def del: validate_request.simps)
  next
    assume "ty = ''growth_opportunities''" "required = [''user_data'']"
      "message = ''Missing required fields for growth opportunities''"
    with assms(3) d show ?thesis
      by (simp add: identify_growth_opportunities_rejects Let_def del: validate_request.simps)
  qed
qed

text \<open>
  C2 (as amended). For every capability of every agent: when the request selects the
  capability and one of its required keys is missing or holds a falsy value,
  \<open>process_request\<close> returns the error envelope (\<open>success = False\<close>) with the handler's
  fixed message \<open>Missing required fields for <capability>\<close> and makes no call to the
  completion endpoint. The message is the same whichever field is missing: the field is
  named only in the validator's log line, not in the envelope.
\<close>

theorem C2_invalid_request_rejected_without_call:
  assumes "(ty, required, message) \<in> set (capabilities_of (agent_kind self))"
    and "map_of request_data ''type'' = Some (PStr ty)"
    and "k \<in> set required"
    and "missing_or_falsy request_data k"
  shows "fst (process_request E self request_data w)
           = Inr (PDict [(''success'', PBool False),
                         (''error'', PStr message),
                         (''agent'', PStr (name self)),
                         (''timestamp'', PStr (utcnow E (clock_reads w)))])
         \<and> api_calls (snd (snd (process_request E self request_data w))) = api_calls w"
proof -
  have rej: "\<not> validate_request request_data required"
    using assms(3,4) by (rule validate_request_rejects)
  have "process_request E self request_data w
         = (fst (rejected E (log_request self) message w), log_request self,
            snd (rejected E (log_request self) message w))"
  proof (cases "agent_kind self")
    case MarketResearchAgent
    then show ?thesis
      using assms(1,2) rej market_agent_rejects by (simp add: process_request_def)
  next
    case TranslationAgent
    then show ?thesis
      using assms(1,2) rej translation_agent_rejects by (simp add: process_request_def)
  next
    case BusinessIntelligenceAgent
    then show ?thesis
      using assms(1,2) rej business_agent_rejects by (simp add: process_request_def)
  qed
  then show ?thesis
    by (simp add: rejected_def log_request_def)
qed

theorem C2_invalid_request_rejected_without_call_witness:
  "(''text_translation'', [''text'', ''target_language''],
      ''Missing required fields for text translation'')
     \<in> set (capabilities_of (agent_kind (an_agent TranslationAgent ''TranslationAgent'')))
   \<and> map_of [(''type'', PStr ''text_translation''), (''text'', PStr ''Hello'')] ''type''
       = Some (PStr ''text_translation'')
   \<and> ''target_language'' \<in> set [''text'', ''target_language'']
   \<and> missing_or_falsy [(''type'', PStr ''text_translation''), (''text'', PStr ''Hello'')]
         ''target_language''
   \<and> fst (process_request (stub_env ''hola'' no_json)
            (an_agent TranslationAgent ''TranslationAgent'')
            [(''type'', PStr ''text_translation''), (''text'', PStr ''Hello'')] world0)
       = Inr (PDict [(''success'', PBool False),
                     (''error'', PStr ''Missing required fields for text translation''),
                     (''agent'', PStr ''TranslationAgent''),
                     (''timestamp'', PStr ''2024-01-01T00:00:00'')])
   \<and> api_calls (snd (snd (process_request (stub_env ''hola'' no_json)
            (an_agent TranslationAgent ''TranslationAgent'')
            [(''type'', PStr ''text_translation''), (''text'', PStr ''Hello'')] world0))) = []"
proof -
  let ?A = "an_agent TranslationAgent ''TranslationAgent''"
  let ?rd = "[(''type'', PStr ''text_translation''), (''text'', PStr ''Hello'')]"
  have h1: "(''text_translation'', [''text'', ''target_language''],
      ''Missing required fields for text translation'') \<in> set (capabilities_of (agent_kind ?A))"
    by (simp add: an_agent_def)
  have h2: "map_of ?rd ''type'' = Some (PStr ''text_translation'')" by simp
  have h3: "''target_language'' \<in> set [''text'', ''target_language'']" by simp
  have h4: "missing_or_falsy ?rd ''target_language''" by (simp add: missing_or_falsy_def)
  show ?thesis
    using h1 h2 h3 h4
      C2_invalid_request_rejected_without_call [OF h1 h2 h3 h4, of "stub_env ''hola'' no_json" world0]
    by (simp add: an_agent_def world0_def stub_env_def)
qed

theorem C2_message_does_not_name_field_counterexample:
  "\<not> (\<exists>m. envelope_error
             (fst (process_request (stub_env ''hola'' no_json)
                     (an_agent TranslationAgent ''TranslationAgent'')
                     [(''type'', PStr ''text_translation''), (''text'', PStr ''Hello'')] world0))
           = Some m
         \<and> str_contains m ''target_language'')"
proof -
  have m: "envelope_error
             (fst (process_request (stub_env ''hola'' no_json)
                     (an_agent TranslationAgent ''TranslationAgent'')
                     [(''type'', PStr ''text_translation''), (''text'', PStr ''Hello'')] world0))
           = Some ''Missing required fields for text translation''"
    by code_simp
  have n: "\<not> str_contains ''Missing required fields for text translation'' ''target_language''"
    by code_simp
  show ?thesis using m n by simp
qed



lemma rejected_calls [simp]: "api_calls (snd (rejected E self message w)) = api_calls w"
  by (simp add: rejected_def)















































lemma failed_result_data: "result_failed r \<Longrightarrow> result_data r = PNone"
  by (cases r rule: result_failed.cases) simp_all

lemma succeeded_not_failed: "result_succeeded r \<Longrightarrow> \<not> result_failed r"
  by (cases r rule: result_failed.cases) simp_all

lemma process_market_research_request_compiled:
  assumes "AgentManager_analyze_market E orch
             (dict_get_default research_data ''product_name'' (PStr ''Unknown Product''))
             (dict_get_default research_data ''target_country'' (PStr ''Global''))
             (dict_get_default research_data ''product_category'' (PStr ''General'')) w
           = (m, orch1, w1)"
    and "AgentManager_discover_contacts E orch1
             (dict_get_default research_data ''target_country'' (PStr ''Global''))
             (dict_get_default research_data ''product_category'' (PStr ''General''))
             (PStr ''any'') (PStr ''buyer'') w1
           = (c, orch2, w2)"
    and "AgentManager_analyze_trends E orch2
             (dict_get_default research_data ''target_country'' (PStr ''Global''))
             (dict_get_default research_data ''product_category'' (PStr ''General''))
             (PStr ''2024-2025'') w2
           = (t, orch3, w3)"
  shows "process_market_research_request E orch research_data w =
           (compile_results research_data
              (dict_get_default research_data ''product_name'' (PStr ''Unknown Product''))
              (dict_get_default research_data ''target_country'' (PStr ''Global''))
              (Inr m) (Inr c) (Inr t), orch3, w3)"
  using assms by (simp add: process_market_research_request_def Let_def)

lemma succeeded_result_data:
  "result_succeeded (Inr v) \<Longrightarrow>
   result_data (Inr v) = (case field v ''data'' of Some x \<Rightarrow> x | None \<Rightarrow> PNone)"
  by (cases v) (simp_all add: dict_get_def)

text \<open>
  C4. Let \<open>m\<close>, \<open>c\<close> and \<open>t\<close> be what the three sub-invocations of the comprehensive
  market research return (market analysis, contact discovery, trend analysis, run in
  this order). The aggregate always has \<open>success = True\<close>. When exactly one of the three
  is an unsuccessful envelope and the other two are successful ones, the \<open>errors\<close> list
  has the one entry naming the failed sub-analysis, its slot holds \<open>None\<close>, and the other
  two slots hold the data of their envelopes. The compilation treats an exception handed
  over in place of a result in the same way: one entry in \<open>errors\<close>, \<open>None\<close> in the slot,
  \<open>success = True\<close>.
\<close>

theorem C4_fan_out_partial_failure:
  assumes "AgentManager_analyze_market E orch
             (dict_get_default research_data ''product_name'' (PStr ''Unknown Product''))
             (dict_get_default research_data ''target_country'' (PStr ''Global''))
             (dict_get_default research_data ''product_category'' (PStr ''General'')) w
           = (m, orch1, w1)"
    and "AgentManager_discover_contacts E orch1
             (dict_get_default research_data ''target_country'' (PStr ''Global''))
             (dict_get_default research_data ''product_category'' (PStr ''General''))
             (PStr ''any'') (PStr ''buyer'') w1
           = (c, orch2, w2)"
    and "AgentManager_analyze_trends E orch2
             (dict_get_default research_data ''target_country'' (PStr ''Global''))
             (dict_get_default research_data ''product_category'' (PStr ''General''))
             (PStr ''2024-2025'') w2
           = (t, orch3, w3)"
  shows "field (fst (process_market_research_request E orch research_data w)) ''success''
           = Some (PBool True)
    \<and> (result_failed (Inr m) \<and> result_succeeded (Inr c) \<and> result_succeeded (Inr t) \<longrightarrow>
         field (fst (process_market_research_request E orch research_data w)) ''errors''
           = Some (PList [PStr ''Market analysis failed''])
         \<and> field (fst (process_market_research_request E orch research_data w)) ''market_analysis'' = Some PNone
         \<and> field (fst (process_market_research_request E orch research_data w)) ''contacts''
             = Some (case field c ''data'' of Some v \<Rightarrow> v | None \<Rightarrow> PNone)
         \<and> field (fst (process_market_research_request E orch research_data w)) ''trends''
             = Some (case field t ''data'' of Some v \<Rightarrow> v | None \<Rightarrow> PNone))
    \<and> (result_succeeded (Inr m) \<and> result_failed (Inr c) \<and> result_succeeded (Inr t) \<longrightarrow>
         field (fst (process_market_research_request E orch research_data w)) ''errors''
           = Some (PList [PStr ''Contact discovery failed''])
         \<and> field (fst (process_market_research_request E orch research_data w)) ''market_analysis''
             = Some (case field m ''data'' of Some v \<Rightarrow> v | None \<Rightarrow> PNone)
         \<and> field (fst (process_market_research_request E orch research_data w)) ''contacts'' = Some PNone
         \<and> field (fst (process_market_research_request E orch research_data w)) ''trends''
             = Some (case field t ''data'' of Some v \<Rightarrow> v | None \<Rightarrow> PNone))
    \<and> (result_succeeded (Inr m) \<and> result_succeeded (Inr c) \<and> result_failed (Inr t) \<longrightarrow>
         field (fst (process_market_research_request E orch research_data w)) ''errors''
           = Some (PList [PStr ''Trend analysis failed''])
         \<and> field (fst (process_market_research_request E orch research_data w)) ''market_analysis''
             = Some (case field m ''data'' of Some v \<Rightarrow> v | None \<Rightarrow> PNone)
         \<and> field (fst (process_market_research_request E orch research_data w)) ''contacts''
             = Some (case field c ''data'' of Some v \<Rightarrow> v | None \<Rightarrow> PNone)
         \<and> field (fst (process_market_research_request E orch research_data w)) ''trends'' = Some PNone)
    \<and> (result_failed gm \<and> result_succeeded gc \<and> result_succeeded gt \<longrightarrow>
         field (compile_results rd pn tc gm gc gt) ''success'' = Some (PBool True)
         \<and> field (compile_results rd pn tc gm gc gt) ''errors'' = Some (PList [PStr ''Market analysis failed''])
         \<and> field (compile_results rd pn tc gm gc gt) ''market_analysis'' = Some PNone)
    \<and> (result_succeeded gm \<and> result_failed gc \<and> result_succeeded gt \<longrightarrow>
         field (compile_results rd pn tc gm gc gt) ''success'' = Some (PBool True)
         \<and> field (compile_results rd pn tc gm gc gt) ''errors'' = Some (PList [PStr ''Contact discovery failed''])
         \<and> field (compile_results rd pn tc gm gc gt) ''contacts'' = Some PNone)
    \<and> (result_succeeded gm \<and> result_succeeded gc \<and> result_failed gt \<longrightarrow>
         field (compile_results rd pn tc gm gc gt) ''success'' = Some (PBool True)
         \<and> field (compile_results rd pn tc gm gc gt) ''errors'' = Some (PList [PStr ''Trend analysis failed''])
         \<and> field (compile_results rd pn tc gm gc gt) ''trends'' = Some PNone)"
proof -
  have r: "fst (process_market_research_request E orch research_data w) =
           compile_results research_data
              (dict_get_default research_data ''product_name'' (PStr ''Unknown Product''))
              (dict_get_default research_data ''target_country'' (PStr ''Global''))
              (Inr m) (Inr c) (Inr t)"
    using process_market_research_request_compiled [OF assms] by simp
  show ?thesis
    unfolding r
    by (simp add: compile_results_def failed_result_data succeeded_not_failed
        succeeded_result_data)
qed

theorem C4_fan_out_partial_failure_witness:
  "(let E = stub_env ''not json'' no_json;
        orch = fst (initialize_agents E AgentOrchestrator_init world0);
        r1 = AgentManager_analyze_market E orch (PStr []) (PStr ''Italy'') (PStr ''Coffee'') world0;
        r2 = AgentManager_discover_contacts E (fst (snd r1)) (PStr ''Italy'') (PStr ''Coffee'')
               (PStr ''any'') (PStr ''buyer'') (snd (snd r1));
        r3 = AgentManager_analyze_trends E (fst (snd r2)) (PStr ''Italy'') (PStr ''Coffee'')
               (PStr ''2024-2025'') (snd (snd r2));
        R = fst (process_market_research_request E orch
               [(''research_id'', PInt 7), (''product_name'', PStr []),
                (''target_country'', PStr ''Italy''), (''product_category'', PStr ''Coffee'')]
               world0)
    in result_failed (Inr (fst r1)) \<and> result_succeeded (Inr (fst r2))
       \<and> result_succeeded (Inr (fst r3))
       \<and> field R ''success'' = Some (PBool True)
       \<and> field R ''errors'' = Some (PList [PStr ''Market analysis failed''])
       \<and> field R ''market_analysis'' = Some PNone
       \<and> field R ''contacts''
           = Some (case field (fst r2) ''data'' of Some v \<Rightarrow> v | None \<Rightarrow> PNone)
       \<and> field R ''trends''
           = Some (case field (fst r3) ''data'' of Some v \<Rightarrow> v | None \<Rightarrow> PNone)
       \<and> field R ''contacts'' \<noteq> Some PNone
       \<and> field R ''trends'' \<noteq> Some PNone
       \<and> result_failed (Inl (OtherError ''connection reset''))
       \<and> field (compile_results [(''research_id'', PInt 7)] (PStr ''Coffee'') (PStr ''Italy'')
             (Inl (OtherError ''connection reset'')) (Inr (fst r2)) (Inr (fst r3))) ''errors''
           = Some (PList [PStr ''Market analysis failed''])
       \<and> field (compile_results [(''research_id'', PInt 7)] (PStr ''Coffee'') (PStr ''Italy'')
             (Inl (OtherError ''connection reset'')) (Inr (fst r2)) (Inr (fst r3)))
             ''market_analysis'' = Some PNone)"
proof -
  let ?E = "stub_env ''not json'' no_json"
  let ?O = "fst (initialize_agents ?E AgentOrchestrator_init world0)"
  let ?rd = "[(''research_id'', PInt 7), (''product_name'', PStr []),
              (''target_country'', PStr ''Italy''), (''product_category'', PStr ''Coffee'')]"
  let ?r1 = "AgentManager_analyze_market ?E ?O (PStr []) (PStr ''Italy'') (PStr ''Coffee'') world0"
  let ?r2 = "AgentManager_discover_contacts ?E (fst (snd ?r1)) (PStr ''Italy'') (PStr ''Coffee'')
               (PStr ''any'') (PStr ''buyer'') (snd (snd ?r1))"
  let ?r3 = "AgentManager_analyze_trends ?E (fst (snd ?r2)) (PStr ''Italy'') (PStr ''Coffee'')
               (PStr ''2024-2025'') (snd (snd ?r2))"
  let ?R = "fst (process_market_research_request ?E ?O ?rd world0)"
  have h1: "AgentManager_analyze_market ?E ?O
             (dict_get_default ?rd ''product_name'' (PStr ''Unknown Product''))
             (dict_get_default ?rd ''target_country'' (PStr ''Global''))
             (dict_get_default ?rd ''product_category'' (PStr ''General'')) world0
           = (fst ?r1, fst (snd ?r1), snd (snd ?r1))"
    by (simp add: dict_get_default_def)
  have h2: "AgentManager_discover_contacts ?E (fst (snd ?r1))
             (dict_get_default ?rd ''target_country'' (PStr ''Global''))
             (dict_get_default ?rd ''product_category'' (PStr ''General''))
             (PStr ''any'') (PStr ''buyer'') (snd (snd ?r1))
           = (fst ?r2, fst (snd ?r2), snd (snd ?r2))"
    by (simp add: dict_get_default_def)
  have h3: "AgentManager_analyze_trends ?E (fst (snd ?r2))
             (dict_get_default ?rd ''target_country'' (PStr ''Global''))
             (dict_get_default ?rd ''product_category'' (PStr ''General''))
             (PStr ''2024-2025'') (snd (snd ?r2))
           = (fst ?r3, fst (snd ?r3), snd (snd ?r3))"
    by (simp add: dict_get_default_def)
  have f1: "result_failed (Inr (fst ?r1))" by code_simp
  have s2: "result_succeeded (Inr (fst ?r2))" by code_simp
  have s3: "result_succeeded (Inr (fst ?r3))" by code_simp
  have n2: "(case field (fst ?r2) ''data'' of Some v \<Rightarrow> v | None \<Rightarrow> PNone) \<noteq> PNone"
    by code_simp
  have n3: "(case field (fst ?r3) ''data'' of Some v \<Rightarrow> v | None \<Rightarrow> PNone) \<noteq> PNone"
    by code_simp
  have fx: "result_failed (Inl (OtherError ''connection reset''))" by simp
  note whole = C4_fan_out_partial_failure [OF h1 h2 h3,
      where rd = "[(''research_id'', PInt 7)]" and pn = "PStr ''Coffee''"
        and tc = "PStr ''Italy''" and gm = "Inl (OtherError ''connection reset'')"
        and gc = "Inr (fst ?r2)" and gt = "Inr (fst ?r3)"]
  have a: "field ?R ''success'' = Some (PBool True)" using whole by blast
  have b: "field ?R ''errors'' = Some (PList [PStr ''Market analysis failed''])"
      "field ?R ''market_analysis'' = Some PNone"
      "field ?R ''contacts''
         = Some (case field (fst ?r2) ''data'' of Some v \<Rightarrow> v | None \<Rightarrow> PNone)"
      "field ?R ''trends''
         = Some (case field (fst ?r3) ''data'' of Some v \<Rightarrow> v | None \<Rightarrow> PNone)"
    using whole f1 s2 s3 by blast+
  have c: "field (compile_results [(''research_id'', PInt 7)] (PStr ''Coffee'') (PStr ''Italy'')
             (Inl (OtherError ''connection reset'')) (Inr (fst ?r2)) (Inr (fst ?r3))) ''errors''
           = Some (PList [PStr ''Market analysis failed''])"
      "field (compile_results [(''research_id'', PInt 7)] (PStr ''Coffee'') (PStr ''Italy'')
             (Inl (OtherError ''connection reset'')) (Inr (fst ?r2)) (Inr (fst ?r3)))
             ''market_analysis'' = Some PNone"
    using whole fx s2 s3 by blast+
  show ?thesis
    unfolding Let_def using f1 s2 s3 a b c fx n2 n3 by simp
qed


lemma length_completions [simp]: "length (completions E w ms) = length ms"
  by (induction ms arbitrary: w) simp_all










lemma validate_products:
  "map_of rd ''products'' = Some (PList ps) \<Longrightarrow> ps \<noteq> [] \<Longrightarrow>
   validate_request rd [''products'']"
  by simp



















end
